theory Spec2Isabelle
  imports Complex_Main
begin

section \<open>Strings as the analyzers use them\<close>

text \<open>
  A text is a list of 8-bit characters, read as the code units U+0000 to U+00FF.
  \<open>toLowerCase\<close> maps A-Z and the Latin-1 capitals (U+00C0 to U+00DE, without the
  multiplication sign U+00D7) to their small letters and leaves every other unit as it is.
\<close>

definition toLowerChar :: "char \<Rightarrow> char" where
  "toLowerChar c =
     (let n = (of_char c :: nat)
      in if (65 \<le> n \<and> n \<le> 90) \<or> (192 \<le> n \<and> n \<le> 222 \<and> n \<noteq> 215)
         then char_of (n + 32) else c)"

definition toLowerCase :: "string \<Rightarrow> string" where
  "toLowerCase s = map toLowerChar s"

text \<open>\<open>startsWith t s\<close>: the text \<open>t\<close> begins with \<open>s\<close>.\<close>

fun startsWith :: "string \<Rightarrow> string \<Rightarrow> bool" where
  "startsWith t [] = True"
| "startsWith [] (p # ps) = False"
| "startsWith (c # cs) (p # ps) = (c = p \<and> startsWith cs ps)"

text \<open>\<open>String.prototype.includes\<close> (named \<open>includesStr\<close> here): \<open>s\<close> occurs somewhere in \<open>t\<close>.\<close>

fun includesStr :: "string \<Rightarrow> string \<Rightarrow> bool" where
  "includesStr [] s = (s = [])"
| "includesStr (c # cs) s = (startsWith (c # cs) s \<or> includesStr cs s)"

section \<open>The regular expression \<open>\bword\b\<close> with the flags \<open>gi\<close>\<close>

text \<open>The class \<open>\w\<close> is \<open>[A-Za-z0-9_]\<close>.\<close>

definition isWordChar :: "char \<Rightarrow> bool" where
  "isWordChar c =
     (let n = (of_char c :: nat)
      in (48 \<le> n \<and> n \<le> 57) \<or> (65 \<le> n \<and> n \<le> 90) \<or> (97 \<le> n \<and> n \<le> 122) \<or> n = 95)"

text \<open>
  \<open>\b\<close> holds between two neighbouring positions exactly one of which is a word
  character; the positions in front of the first and behind the last unit count as non-word.
\<close>

definition isWordAt :: "char option \<Rightarrow> bool" where
  "isWordAt oc = (case oc of None \<Rightarrow> False | Some c \<Rightarrow> isWordChar c)"

definition wordBoundary :: "char option \<Rightarrow> char option \<Rightarrow> bool" where
  "wordBoundary prev nxt = (isWordAt prev \<noteq> isWordAt nxt)"

text \<open>
  The flag \<open>i\<close> (without \<open>u\<close>) compares the upper-case forms of two units; a unit outside
  ASCII never becomes an ASCII letter that way, so against the ASCII letters of the word
  lists only the ASCII case matters.
\<close>

definition canonicalize :: "char \<Rightarrow> char" where
  "canonicalize c =
     (let n = (of_char c :: nat) in if 97 \<le> n \<and> n \<le> 122 then char_of (n - 32) else c)"

fun matchesAt :: "string \<Rightarrow> string \<Rightarrow> bool" where
  "matchesAt [] t = True"
| "matchesAt (p # ps) [] = False"
| "matchesAt (p # ps) (c # cs) = (canonicalize p = canonicalize c \<and> matchesAt ps cs)"

definition headOf :: "string \<Rightarrow> char option" where
  "headOf t = (case t of [] \<Rightarrow> None | c # _ \<Rightarrow> Some c)"

definition lastOf :: "char option \<Rightarrow> string \<Rightarrow> char option" where
  "lastOf prev w = (if w = [] then prev else Some (last w))"

text \<open>
  \<open>wordMatchHere w prev t\<close>: the pattern \<open>\bw\b\<close> matches at the start of \<open>t\<close>, where
  \<open>prev\<close> is the unit in front of \<open>t\<close>.
\<close>

definition wordMatchHere :: "string \<Rightarrow> char option \<Rightarrow> string \<Rightarrow> bool" where
  "wordMatchHere w prev t =
     (wordBoundary prev (headOf t) \<and> matchesAt w t \<and>
      wordBoundary (lastOf prev (take (length w) t)) (headOf (drop (length w) t)))"

text \<open>
  \<open>text.match(regex)\<close> with the flag \<open>g\<close> collects the matches from left to right, each
  search starting where the last match ended (one unit further when the match is empty).
  \<open>countFrom w prev t\<close> is the number of matches found in \<open>t\<close>.
\<close>

function countFrom :: "string \<Rightarrow> char option \<Rightarrow> string \<Rightarrow> nat" where
  "countFrom w prev [] = (if wordMatchHere w prev [] then 1 else 0)"
| "countFrom w prev (c # cs) =
     (if wordMatchHere w prev (c # cs)
      then (if w = [] then Suc (countFrom w (Some c) cs)
            else Suc (countFrom w (Some (last (take (length w) (c # cs))))
                        (drop (length w) (c # cs))))
      else countFrom w (Some c) cs)"
  by pat_completeness auto
termination
  by (relation "measure (\<lambda>(w, prev, t). length t)") auto

definition countMatches :: "string \<Rightarrow> string \<Rightarrow> nat" where
  "countMatches w t = countFrom w None t"

section \<open>Double-precision arithmetic of the score\<close>

text \<open>
  \<open>positiveScore / totalSentimentWords\<close> and the product with 100 are IEEE 754 binary64
  operations: the exact result rounded to the nearest number with a 53-bit significand,
  ties to the even significand. A double that is not negative is a pair \<open>(m, e)\<close> standing for
  \<open>m * 2 ^ e\<close>. The values of the score lie between \<open>2 ^ - 53\<close> and 100, far from the
  subnormal and the overflow range.
\<close>

type_synonym double = "int \<times> int"

function bitLength :: "int \<Rightarrow> int" where
  "bitLength n = (if n \<le> 0 then 0 else 1 + bitLength (n div 2))"
  by pat_completeness auto
termination
  by (relation "measure nat") auto

text \<open>\<open>scaleFrac a b e\<close> is the fraction \<open>(a / b) / 2 ^ e\<close> as numerator and denominator.\<close>

definition scaleFrac :: "int \<Rightarrow> int \<Rightarrow> int \<Rightarrow> int \<times> int" where
  "scaleFrac a b e = (if 0 \<le> e then (a, b * 2 ^ nat e) else (a * 2 ^ nat (- e), b))"

text \<open>\<open>floorLog2 a b\<close> is the integer part of the binary logarithm of \<open>a / b\<close>.\<close>

definition floorLog2 :: "int \<Rightarrow> int \<Rightarrow> int" where
  "floorLog2 a b =
     (let k = bitLength a - bitLength b
      in case scaleFrac a b k of (n, d) \<Rightarrow> if d \<le> n then k else k - 1)"

text \<open>The fraction \<open>a / b\<close> (with \<open>0 \<le> a\<close> and \<open>0 < b\<close>) rounded to a double.\<close>

definition roundToDouble :: "int \<Rightarrow> int \<Rightarrow> double" where
  "roundToDouble a b =
     (if a = 0 then (0, 0)
      else let e = floorLog2 a b - 52
           in case scaleFrac a b e of (n, d) \<Rightarrow>
                let q = n div d;
                    r = n mod d
                in if 2 * r < d then (q, e)
                   else if d < 2 * r then (q + 1, e)
                   else if even q then (q, e) else (q + 1, e))"

definition divide_double :: "nat \<Rightarrow> nat \<Rightarrow> double" where
  "divide_double p t = roundToDouble (int p) (int t)"

definition times_double :: "double \<Rightarrow> int \<Rightarrow> double" where
  "times_double x k =
     (case x of (m, e) \<Rightarrow>
        if 0 \<le> e then roundToDouble (m * k * 2 ^ nat e) 1
        else roundToDouble (m * k) (2 ^ nat (- e)))"

text \<open>\<open>Math.round\<close>: the nearest integer, a tie going up.\<close>

definition mathRound :: "double \<Rightarrow> int" where
  "mathRound x =
     (case x of (m, e) \<Rightarrow>
        if 0 \<le> e then m * 2 ^ nat e
        else (2 * m + 2 ^ nat (- e)) div 2 ^ (nat (- e) + 1))"

section \<open>The keyword analyzer (analyzer.ts)\<close>

datatype SentimentLabel = Positive | Neutral | Negative

datatype Tone = Confident | Cautious | Mixed

record SentimentAnalysis =
  score :: int
  label :: SentimentLabel
  summary :: string

text \<open>
  The optional fields \<open>qaSentiment\<close> and \<open>quarter\<close> of the interface are set by neither
  analyzer and are left out.
\<close>

record AnalysisResult =
  managementSentiment :: SentimentAnalysis
  keyThemes :: "string list"
  overallTone :: Tone

definition positiveWords :: "string list" where
  "positiveWords =
     [''growth'', ''strong'', ''record'', ''exceeded'', ''positive'', ''momentum'',
      ''accelerate'', ''breakthrough'', ''innovation'', ''excellent'', ''robust'',
      ''outperform'', ''surge'', ''expand'', ''increase'', ''improve'', ''gain'']"

definition negativeWords :: "string list" where
  "negativeWords =
     [''decline'', ''challenge'', ''concern'', ''weak'', ''difficult'', ''uncertainty'',
      ''risk'', ''pressure'', ''decrease'', ''slow'', ''issue'', ''problem'', ''loss'',
      ''below'', ''miss'', ''disappoint'', ''struggle'', ''threat'']"

text \<open>The two \<open>forEach\<close> loops: the matches of every word of a list, added up.\<close>

fun countWords :: "string list \<Rightarrow> string \<Rightarrow> nat \<Rightarrow> nat" where
  "countWords [] t acc = acc"
| "countWords (w # ws) t acc = countWords ws t (acc + countMatches w t)"

definition positiveScore :: "string \<Rightarrow> nat" where
  "positiveScore t = countWords positiveWords t 0"

definition negativeScore :: "string \<Rightarrow> nat" where
  "negativeScore t = countWords negativeWords t 0"

text \<open>The score without the phrase bonus (lines 42 to 48).\<close>

definition ratioScore :: "nat \<Rightarrow> nat \<Rightarrow> int" where
  "ratioScore p n =
     (let totalSentimentWords = p + n
      in if 0 < totalSentimentWords
         then mathRound (times_double (divide_double p totalSentimentWords) 100)
         else 50)"

definition hasStrongPhrase :: "string \<Rightarrow> bool" where
  "hasStrongPhrase t = (includesStr t ''record revenue'' \<or> includesStr t ''exceeded expectations'')"

definition boost :: "bool \<Rightarrow> int \<Rightarrow> int" where
  "boost strong s = (if strong then min 100 (s + 10) else s)"

definition sentimentScore :: "string \<Rightarrow> int" where
  "sentimentScore t = boost (hasStrongPhrase t) (ratioScore (positiveScore t) (negativeScore t))"

text \<open>Theme detection (lines 55 to 100); \<open>t\<close> is the lower-cased text.\<close>

definition includesAny :: "string \<Rightarrow> string list \<Rightarrow> bool" where
  "includesAny t ks = list_ex (includesStr t) ks"

definition themeTable :: "(string \<times> string list) list" where
  "themeTable =
     [(''AI/ML Growth'', [''ai'', ''artificial intelligence'', ''machine learning'', ''neural'']),
      (''Data Center Expansion'', [''data center'', ''datacenter'', ''cloud'', ''hgx'', ''dgx'']),
      (''Gaming Revenue'', [''gaming'', ''geforce'', ''rtx'', ''game'']),
      (''Supply Chain Management'', [''supply'', ''inventory'', ''manufacturing'', ''production'']),
      (''Automotive Innovation'', [''automotive'', ''self-driving'', ''autonomous'']),
      (''Strategic Partnerships'', [''partner'', ''collaboration'', ''customer''])]"

text \<open>Each \<open>if\<close> of the source pushes its theme onto \<open>themes\<close>, in this order.\<close>

fun pushThemes :: "(string \<times> string list) list \<Rightarrow> string \<Rightarrow> string list \<Rightarrow> string list" where
  "pushThemes [] t themes = themes"
| "pushThemes ((name, ks) # rest) t themes =
     pushThemes rest t (if includesAny t ks then themes @ [name] else themes)"

definition detectThemes :: "string \<Rightarrow> string list" where
  "detectThemes t =
     (let themes = pushThemes themeTable t [];
          themes = (if length themes = 0 then themes @ [''General Business Performance'']
                    else themes)
      in take 5 themes)"

definition labelOf :: "int \<Rightarrow> SentimentLabel" where
  "labelOf s = (if 65 \<le> s then Positive else if 35 \<le> s then Neutral else Negative)"

definition toneOf :: "int \<Rightarrow> Tone" where
  "toneOf s = (if 70 \<le> s then Confident else if s \<le> 30 then Cautious else Mixed)"

definition labelText :: "SentimentLabel \<Rightarrow> string" where
  "labelText l = (case l of Positive \<Rightarrow> ''positive'' | Neutral \<Rightarrow> ''neutral''
                  | Negative \<Rightarrow> ''negative'')"

text \<open>\<open>topThemes[0]\<close> inside the template literal; an empty array would print \<open>undefined\<close>.\<close>

definition firstTheme :: "string list \<Rightarrow> string" where
  "firstTheme ts = (case ts of [] \<Rightarrow> ''undefined'' | th # _ \<Rightarrow> th)"

text \<open>
  \<open>analyzeTranscript\<close> returns \<open>AnalysisResult | null\<close>. No statement of its \<open>try\<close> block
  throws on a string, so the \<open>catch\<close> branch, the only source of \<open>null\<close>, is never taken
  and the result is always \<open>Some\<close>. The pause of 800 ms does not touch the result.
\<close>

definition analyzeTranscript :: "string \<Rightarrow> AnalysisResult option" where
  "analyzeTranscript transcriptText =
     (let t = toLowerCase transcriptText;
          s = sentimentScore t;
          topThemes = detectThemes t;
          l = labelOf s;
          tone = toneOf s
      in Some \<lparr> managementSentiment =
                  \<lparr> score = s, label = l,
                    summary = ''Management expressed '' @ labelText l @
                              '' sentiment with emphasis on '' @ firstTheme topThemes \<rparr>,
                keyThemes = topThemes,
                overallTone = tone \<rparr>)"

text \<open>The Q and A heuristic (lines 142 to 165).\<close>

definition confidentWords :: "string list" where
  "confidentWords = [''absolutely'', ''definitely'', ''certainly'', ''clearly'', ''obviously'']"

definition defensiveWords :: "string list" where
  "defensiveWords = [''however'', ''but'', ''although'', ''despite'', ''challenging'']"

fun addEach :: "int \<Rightarrow> string list \<Rightarrow> string \<Rightarrow> int \<Rightarrow> int" where
  "addEach d [] t s = s"
| "addEach d (w # ws) t s = addEach d ws t (if includesStr t w then s + d else s)"

definition qaRawScore :: "string \<Rightarrow> int" where
  "qaRawScore t = addEach (- 5) defensiveWords t (addEach 5 confidentWords t 50)"

definition analyzeQASection :: "string \<Rightarrow> SentimentAnalysis" where
  "analyzeQASection qaText =
     (let t = toLowerCase qaText;
          s = max 0 (min 100 (qaRawScore t))
      in \<lparr> score = s,
           label = (if 65 \<le> s then Positive else if 35 \<le> s then Neutral else Negative),
           summary = ''Q&A session analysis based on response patterns'' \<rparr>)"

text \<open>
  A transcript with 23 whole-word matches of the positive list and 17 of the negative
  list: \<open>gain\<close> 23 times, then \<open>risk\<close> 17 times, each followed by a blank.
\<close>

definition sentimentWords :: "string list" where
  "sentimentWords = positiveWords @ negativeWords"

definition transcript23to17 :: string where
  "transcript23to17 = concat (replicate 23 ''gain '') @ concat (replicate 17 ''risk '')"

section \<open>JavaScript values of the provider responses\<close>

text \<open>
  What \<open>JSON.parse\<close> and \<open>response.json()\<close> return has no static type at run time:
  a value is \<open>undefined\<close>, \<open>null\<close>, a boolean, a number, \<open>NaN\<close>, a string, an array or an
  object (its own properties as an association list, read with \<open>map_of\<close>).
\<close>

datatype jsval =
    Undefined
  | JNull
  | JBool bool
  | JNum real
  | JNaN
  | JStr string
  | JArr "jsval list"
  | JObj "(string \<times> jsval) list"

datatype JsError =
    NetworkError
  | GeminiApiError nat string
  | SyntaxError
  | NoResponse
  | NoValidJson
  | TypeError

text \<open>
  \<open>v.k\<close> for the property names the analyzers read (\<open>candidates\<close>, \<open>content\<close>, \<open>parts\<close>,
  \<open>text\<close>, \<open>managementSentiment\<close>, \<open>score\<close>, \<open>label\<close>, \<open>summary\<close>, \<open>keyThemes\<close>,
  \<open>overallTone\<close>): a \<open>TypeError\<close> on \<open>undefined\<close> and \<open>null\<close>, the property of an object,
  and \<open>undefined\<close> on every other value, whose prototypes have none of these names.
\<close>

fun getProp :: "jsval \<Rightarrow> string \<Rightarrow> JsError + jsval" where
  "getProp Undefined k = Inl TypeError"
| "getProp JNull k = Inl TypeError"
| "getProp (JObj kvs) k = Inr (case map_of kvs k of None \<Rightarrow> Undefined | Some v \<Rightarrow> v)"
| "getProp v k = Inr Undefined"

text \<open>\<open>v[0]\<close>: the first element of an array, the first unit of a string.\<close>

fun getIndex0 :: "jsval \<Rightarrow> JsError + jsval" where
  "getIndex0 Undefined = Inl TypeError"
| "getIndex0 JNull = Inl TypeError"
| "getIndex0 (JArr xs) = Inr (case xs of [] \<Rightarrow> Undefined | x # _ \<Rightarrow> x)"
| "getIndex0 (JStr s) = Inr (case s of [] \<Rightarrow> Undefined | c # _ \<Rightarrow> JStr [c])"
| "getIndex0 (JObj kvs) = Inr (case map_of kvs ''0'' of None \<Rightarrow> Undefined | Some v \<Rightarrow> v)"
| "getIndex0 v = Inr Undefined"

text \<open>\<open>v?.access\<close>: \<open>undefined\<close> when \<open>v\<close> is \<open>undefined\<close> or \<open>null\<close>.\<close>

definition optional :: "jsval \<Rightarrow> (jsval \<Rightarrow> JsError + jsval) \<Rightarrow> JsError + jsval" where
  "optional v access = (if v = Undefined \<or> v = JNull then Inr Undefined else access v)"

definition andThen :: "JsError + 'a \<Rightarrow> ('a \<Rightarrow> JsError + 'b) \<Rightarrow> JsError + 'b" where
  "andThen r f = (case r of Inl e \<Rightarrow> Inl e | Inr v \<Rightarrow> f v)"

text \<open>\<open>data.candidates?.[0]?.content?.parts?.[0]?.text\<close>\<close>

definition resultTextOf :: "jsval \<Rightarrow> JsError + jsval" where
  "resultTextOf data =
     andThen (getProp data ''candidates'') (\<lambda>candidates.
     andThen (optional candidates getIndex0) (\<lambda>candidate.
     andThen (optional candidate (\<lambda>v. getProp v ''content'')) (\<lambda>content.
     andThen (optional content (\<lambda>v. getProp v ''parts'')) (\<lambda>parts.
     andThen (optional parts getIndex0) (\<lambda>part.
     optional part (\<lambda>v. getProp v ''text''))))))"

definition truthy :: "jsval \<Rightarrow> bool" where
  "truthy v =
     (case v of Undefined \<Rightarrow> False | JNull \<Rightarrow> False | JBool b \<Rightarrow> b | JNum x \<Rightarrow> x \<noteq> 0
      | JNaN \<Rightarrow> False | JStr s \<Rightarrow> s \<noteq> [] | JArr xs \<Rightarrow> True | JObj kvs \<Rightarrow> True)"

text \<open>
  \<open>resultText.match(/\{[\s\S]*\}/)\<close>: the leftmost match starts at the first \<open>{\<close>; the
  greedy star takes every unit, line breaks too, and gives back until a \<open>}\<close> follows, so
  the match ends at the last \<open>}\<close> of the text. There is no match when no \<open>}\<close> stands
  behind the first \<open>{\<close>.
\<close>

definition jsonMatch :: "string \<Rightarrow> string option" where
  "jsonMatch s =
     (case dropWhile (\<lambda>c. c \<noteq> CHR ''{'') s of
        [] \<Rightarrow> None
      | c # rest \<Rightarrow>
          if CHR ''}'' \<in> set rest
          then Some (c # rev (dropWhile (\<lambda>c. c \<noteq> CHR ''}'') (rev rest)))
          else None)"

text \<open>
  The reading of the specification, for comparison: the first balanced \<open>{...}\<close> of the
  text, found by a scanner that counts the depth of the braces. \<open>scanBalanced d t\<close> is the
  part of \<open>t\<close> up to the brace that closes depth \<open>d\<close>.
\<close>

fun scanBalanced :: "nat \<Rightarrow> string \<Rightarrow> string option" where
  "scanBalanced d [] = None"
| "scanBalanced d (c # cs) =
     (if c = CHR ''{'' then map_option ((#) c) (scanBalanced (Suc d) cs)
      else if c = CHR ''}''
           then (if d = 0 then Some [c] else map_option ((#) c) (scanBalanced (d - 1) cs))
      else map_option ((#) c) (scanBalanced d cs))"

fun spec_firstBalancedObject :: "string \<Rightarrow> string option" where
  "spec_firstBalancedObject [] = None"
| "spec_firstBalancedObject (c # cs) =
     (if c = CHR ''{''
      then (case scanBalanced 0 cs of
              Some body \<Rightarrow> Some (c # body)
            | None \<Rightarrow> spec_firstBalancedObject cs)
      else spec_firstBalancedObject cs)"

section \<open>The process state: clock, rate limiter, network calls\<close>

text \<open>
  A request to the provider is the fixed prompt with the texts put into it; the model
  keeps the texts. \<open>fetches\<close> lists the network calls made so far, \<open>requests\<close> is the field
  of the one \<open>RateLimiter\<close> of the module, \<open>clock\<close> is what \<open>Date.now()\<close> returns.
\<close>

datatype Request =
    ScoreRequest string
  | CompareRequest "(string \<times> string) list"

record World =
  clock :: int
  requests :: "int list"
  fetches :: "Request list"

definition fresh :: "int \<Rightarrow> World" where
  "fresh t0 = \<lparr> clock = t0, requests = [], fetches = [] \<rparr>"

definition maxRequests :: nat where
  "maxRequests = 15"

definition timeWindow :: int where
  "timeWindow = 60000"

text \<open>
  \<open>waitIfNeeded\<close> (lines 14 to 29) runs in two parts, with the \<open>await\<close> of line 24 between
  them. \<open>enter\<close> is the part up to the \<open>await\<close>: it reads \<open>now\<close>, stores the filtered
  list in \<open>this.requests\<close> and either pushes \<open>now\<close> at once (the caller is released, \<open>None\<close>)
  or suspends the caller, \<open>Some (now, due)\<close>, until the timer set for \<open>waitTime\<close> is due.
  \<open>resume\<close> is the part behind the \<open>await\<close>: it pushes the \<open>now\<close> read on entry onto the
  list as it is then. \<open>this.requests[0]\<close> of an empty array is \<open>undefined\<close>, the waiting time
  \<open>NaN\<close>, and \<open>NaN > 0\<close> is false.
\<close>

definition enter :: "World \<Rightarrow> World \<times> (int \<times> int) option" where
  "enter w =
     (let now = clock w;
          reqs = filter (\<lambda>time. now - time < timeWindow) (requests w)
      in if maxRequests \<le> length reqs
         then (case reqs of
                 [] \<Rightarrow> (w\<lparr> requests := reqs @ [now] \<rparr>, None)
               | oldestRequest # _ \<Rightarrow>
                   let waitTime = (oldestRequest + timeWindow) - now
                   in if 0 < waitTime
                      then (w\<lparr> requests := reqs \<rparr>, Some (now, now + waitTime))
                      else (w\<lparr> requests := reqs @ [now] \<rparr>, None))
         else (w\<lparr> requests := reqs @ [now] \<rparr>, None))"

definition resume :: "int \<Rightarrow> World \<Rightarrow> World" where
  "resume now w = w\<lparr> requests := requests w @ [now] \<rparr>"

text \<open>
  A caller that runs alone, no other caller entering while it waits: the timer of
  \<open>setTimeout\<close> fires \<open>late\<close> milliseconds behind its delay, never ahead of it, and the
  caller resumes then. This is how the two analyzers below call the limiter; the time a
  network call takes is part of the idle time before the next call.
\<close>

definition waitIfNeeded :: "nat \<Rightarrow> World \<Rightarrow> World" where
  "waitIfNeeded late w =
     (case enter w of
        (w1, None) \<Rightarrow> w1
      | (w1, Some (now, due)) \<Rightarrow> resume now (w1\<lparr> clock := due + int late \<rparr>))"

text \<open>
  Callers that overlap, as the requests of the route handler can: time passes, a caller
  enters, or the suspended caller at position \<open>i\<close> of the waiting list resumes, which it
  can only when its timer is due. The state is the process state with the list of the
  suspended callers, each with its \<open>now\<close> and the moment its timer is due.
\<close>

datatype Event = Pass nat | Enters | Resumes nat

fun step :: "Event \<Rightarrow> World \<times> (int \<times> int) list \<Rightarrow> (World \<times> (int \<times> int) list) option" where
  "step (Pass d) (w, waiting) = Some (w\<lparr> clock := clock w + int d \<rparr>, waiting)"
| "step Enters (w, waiting) =
     (case enter w of
        (w1, None) \<Rightarrow> Some (w1, waiting)
      | (w1, Some caller) \<Rightarrow> Some (w1, waiting @ [caller]))"
| "step (Resumes i) (w, waiting) =
     (if i < length waiting \<and> snd (waiting ! i) \<le> clock w
      then Some (resume (fst (waiting ! i)) w, take i waiting @ drop (Suc i) waiting)
      else None)"

fun run :: "Event list \<Rightarrow> World \<times> (int \<times> int) list \<Rightarrow> (World \<times> (int \<times> int) list) option" where
  "run [] st = Some st"
| "run (e # es) st = (case step e st of None \<Rightarrow> None | Some st' \<Rightarrow> run es st')"







section \<open>The Gemini analyzer (ai-analyzer.ts)\<close>

text \<open>
  The surroundings of the module: the key of the environment (empty when not set), the
  provider behind \<open>fetch\<close> (\<open>None\<close> when the promise rejects), \<open>JSON.parse\<close> of the run time
  (\<open>None\<close> when it throws a \<open>SyntaxError\<close>) and the conversion to a number of an array,
  an object or a string that is not made of decimal digits only: \<open>Inr (Some x)\<close> for the
  number \<open>x\<close>, \<open>Inr None\<close> for \<open>NaN\<close>, and \<open>Inl\<close> when the conversion throws, as it does on
  a parsed object whose own \<open>valueOf\<close> and \<open>toString\<close> are not callable.
\<close>

record Response =
  ok :: bool
  status :: nat
  body :: string

record Env =
  GEMINI_API_KEY :: string
  fetch :: "Request \<Rightarrow> Response option"
  JSON_parse :: "string \<Rightarrow> jsval option"
  toNumberOther :: "jsval \<Rightarrow> JsError + real option"

text \<open>
  The conversion to a number that \<open>Math.min\<close> applies to its arguments. A string of
  decimal digits is the number it writes, the empty string is 0; beyond \<open>2 ^ 53\<close> the
  number is rounded, which the bound 100 of the score hides.
\<close>

definition isDigit :: "char \<Rightarrow> bool" where
  "isDigit c = (c \<in> set ''0123456789'')"

definition decimalOf :: "string \<Rightarrow> int" where
  "decimalOf s = foldl (\<lambda>acc c. 10 * acc + (int (of_char c) - 48)) 0 s"

definition toNumber :: "Env \<Rightarrow> jsval \<Rightarrow> JsError + real option" where
  "toNumber env v =
     (case v of
        Undefined \<Rightarrow> Inr None
      | JNull \<Rightarrow> Inr (Some 0)
      | JBool b \<Rightarrow> Inr (Some (if b then 1 else 0))
      | JNum x \<Rightarrow> Inr (Some x)
      | JNaN \<Rightarrow> Inr None
      | JStr s \<Rightarrow> if list_all isDigit s then Inr (Some (real_of_int (decimalOf s)))
                  else toNumberOther env v
      | _ \<Rightarrow> toNumberOther env v)"

text \<open>
  \<open>Math.max(0, Math.min(100, v))\<close>: \<open>Math.min\<close> converts \<open>v\<close> to a number, which can throw;
  both functions give \<open>NaN\<close> on \<open>NaN\<close>.
\<close>

definition clampScore :: "Env \<Rightarrow> jsval \<Rightarrow> JsError + jsval" where
  "clampScore env v =
     (case toNumber env v of
        Inl e \<Rightarrow> Inl e
      | Inr None \<Rightarrow> Inr JNaN
      | Inr (Some x) \<Rightarrow> Inr (JNum (max 0 (min 100 x))))"

text \<open>
  The object literal returned at lines 125 to 133, its properties evaluated in the order
  of the source.
\<close>

definition normalize :: "Env \<Rightarrow> jsval \<Rightarrow> JsError + jsval" where
  "normalize env analysis =
     andThen (getProp analysis ''managementSentiment'') (\<lambda>ms.
     andThen (getProp ms ''score'') (\<lambda>sc.
     andThen (clampScore env sc) (\<lambda>scoreOut.
     andThen (getProp ms ''label'') (\<lambda>lb.
     andThen (getProp ms ''summary'') (\<lambda>sm.
     andThen (getProp analysis ''keyThemes'') (\<lambda>themes.
     andThen (getProp analysis ''overallTone'') (\<lambda>tone.
       Inr (JObj [(''managementSentiment'',
                    JObj [(''score'', scoreOut), (''label'', lb), (''summary'', sm)]),
                  (''keyThemes'', (case themes of JArr xs \<Rightarrow> JArr (take 5 xs) | _ \<Rightarrow> JArr [])),
                  (''overallTone'', tone)]))))))))"

text \<open>Lines 112 to 133: from the text of the response to the result.\<close>

definition parseAnalysis :: "Env \<Rightarrow> jsval \<Rightarrow> JsError + jsval" where
  "parseAnalysis env resultText =
     (if \<not> truthy resultText then Inl NoResponse
      else case resultText of
             JStr s \<Rightarrow>
               (case jsonMatch s of
                  None \<Rightarrow> Inl NoValidJson
                | Some m \<Rightarrow>
                    (case JSON_parse env m of
                       None \<Rightarrow> Inl SyntaxError
                     | Some analysis \<Rightarrow> normalize env analysis))
           | _ \<Rightarrow> Inl TypeError)"

text \<open>Lines 104 to 133: from the response to the result.\<close>

definition readResponse :: "Env \<Rightarrow> Response option \<Rightarrow> JsError + jsval" where
  "readResponse env fetched =
     (case fetched of
        None \<Rightarrow> Inl NetworkError
      | Some response \<Rightarrow>
          if \<not> ok response then Inl (GeminiApiError (status response) (body response))
          else case JSON_parse env (body response) of
                 None \<Rightarrow> Inl SyntaxError
               | Some data \<Rightarrow> andThen (resultTextOf data) (parseAnalysis env))"

text \<open>
  The two prompts: the transcript cut to its first 100000 units, and every quarter with
  its content cut to the first 5000 units.
\<close>

definition analysisRequest :: "string \<Rightarrow> Request" where
  "analysisRequest transcriptText = ScoreRequest (take 100000 transcriptText)"

definition comparisonRequest :: "(string \<times> string) list \<Rightarrow> Request" where
  "comparisonRequest transcripts =
     CompareRequest (map (\<lambda>(quarter, content). (quarter, take 5000 content)) transcripts)"

text \<open>The \<open>try\<close> block of \<open>analyzeTranscriptWithAI\<close>: \<open>Inl\<close> is a \<open>throw\<close>.\<close>

definition tryAnalyze :: "Env \<Rightarrow> string \<Rightarrow> nat \<Rightarrow> World \<Rightarrow> (JsError + jsval) \<times> World" where
  "tryAnalyze env transcriptText late w =
     (let w1 = waitIfNeeded late w;
          request = analysisRequest transcriptText;
          w2 = w1\<lparr> fetches := fetches w1 @ [request] \<rparr>
      in (readResponse env (fetch env request), w2))"

text \<open>\<open>analyzeTranscriptWithAI\<close>: \<open>None\<close> is \<open>null\<close>; the \<open>catch\<close> turns every \<open>throw\<close> into it.\<close>

definition analyzeTranscriptWithAI :: "Env \<Rightarrow> string \<Rightarrow> nat \<Rightarrow> World \<Rightarrow> jsval option \<times> World" where
  "analyzeTranscriptWithAI env transcriptText late w =
     (if GEMINI_API_KEY env = [] then (None, w)
      else case tryAnalyze env transcriptText late w of
             (Inl error, w') \<Rightarrow> (None, w')
           | (Inr result, w') \<Rightarrow> (Some result, w'))"

text \<open>\<open>compareQuartersWithAI\<close> (lines 161 to 206); a transcript is a quarter and a content.\<close>

definition notEnoughData :: jsval where
  "notEnoughData =
     JObj [(''trend'', JStr ''stable''),
           (''insights'', JArr [JStr ''Not enough data for AI comparison''])]"

definition comparisonUnavailable :: jsval where
  "comparisonUnavailable =
     JObj [(''trend'', JStr ''stable''), (''insights'', JArr [JStr ''AI comparison unavailable''])]"

text \<open>
  The \<open>try\<close> block: \<open>Inr (Some v)\<close> is \<open>return v\<close>, \<open>Inr None\<close> leaves the block without a
  \<open>return\<close>, \<open>Inl\<close> is a \<open>throw\<close>.
\<close>

definition readComparison :: "Env \<Rightarrow> Response option \<Rightarrow> JsError + jsval option" where
  "readComparison env fetched =
     (case fetched of
        None \<Rightarrow> Inl NetworkError
      | Some response \<Rightarrow>
          if ok response
          then (case JSON_parse env (body response) of
                  None \<Rightarrow> Inl SyntaxError
                | Some data \<Rightarrow>
                    andThen (resultTextOf data) (\<lambda>found.
                      case (if truthy found then found else JStr []) of
                        JStr s \<Rightarrow>
                          (case jsonMatch s of
                             Some m \<Rightarrow>
                               (case JSON_parse env m of
                                  None \<Rightarrow> Inl SyntaxError
                                | Some v \<Rightarrow> Inr (Some v))
                           | None \<Rightarrow> Inr None)
                      | _ \<Rightarrow> Inl TypeError))
          else Inr None)"

definition compareQuartersWithAI ::
    "Env \<Rightarrow> (string \<times> string) list \<Rightarrow> nat \<Rightarrow> World \<Rightarrow> jsval \<times> World" where
  "compareQuartersWithAI env transcripts late w =
     (if GEMINI_API_KEY env = [] \<or> length transcripts < 2 then (notEnoughData, w)
      else let w1 = waitIfNeeded late w;
               request = comparisonRequest transcripts;
               w2 = w1\<lparr> fetches := fetches w1 @ [request] \<rparr>
           in case readComparison env (fetch env request) of
                Inr (Some v) \<Rightarrow> (v, w2)
              | Inr None \<Rightarrow> (comparisonUnavailable, w2)
              | Inl error \<Rightarrow> (comparisonUnavailable, w2))"

section \<open>The route handler (POST)\<close>

text \<open>
  The variable \<open>analysis\<close> of the handler holds the result of one of the two analyzers;
  the model keeps apart which module built the value.
\<close>

datatype Analysis =
    KeywordAnalysis AnalysisResult
  | GeminiAnalysis jsval

text \<open>The field \<open>method\<close> of the metadata is called \<open>methodUsed\<close> here.\<close>

record Metadata =
  methodUsed :: string
  aiPowered :: bool
  aiAvailable :: bool
  userRequestedAI :: jsval
  transcriptLength :: nat

datatype PostResponse =
    ErrorResponse nat string
  | SuccessResponse Analysis Metadata

text \<open>
  The part of the handler that chooses the analyzer (the two \<open>if\<close> blocks): the value
  of \<open>analysis\<close> and of \<open>actualMethod\<close> behind them. A result of the Gemini analyzer
  that is falsy counts as none (\<open>if (analysis)\<close>, \<open>if (!analysis)\<close>).
\<close>

definition chooseAnalysis ::
    "Env \<Rightarrow> string \<Rightarrow> jsval \<Rightarrow> nat \<Rightarrow> World \<Rightarrow> (Analysis option \<times> string) \<times> World" where
  "chooseAnalysis env transcript useAI late w =
     (let ((analysis, actualMethod), w') =
            (if truthy useAI
             then (if GEMINI_API_KEY env \<noteq> []
                   then (case analyzeTranscriptWithAI env transcript late w of
                           (Some a, w') \<Rightarrow>
                             if truthy a then ((Some (GeminiAnalysis a), ''gemini-ai''), w')
                             else ((None, ''keyword-analysis''), w')
                         | (None, w') \<Rightarrow> ((None, ''keyword-analysis''), w'))
                   else ((None, ''keyword-analysis''), w))
             else ((None, ''keyword-analysis''), w))
      in case analysis of
           None \<Rightarrow> ((map_option KeywordAnalysis (analyzeTranscript transcript),
                      ''keyword-analysis''), w')
         | Some a \<Rightarrow> ((Some a, actualMethod), w'))"

text \<open>
  \<open>POST\<close>, from the destructured body on: \<open>transcript\<close> and \<open>useAI\<close> are the two
  properties of the body (\<open>undefined\<close> when missing; \<open>useAI\<close> then defaults to \<open>false\<close>).
  The time stamp of the metadata is left out.
\<close>

definition POST :: "Env \<Rightarrow> jsval \<Rightarrow> jsval \<Rightarrow> nat \<Rightarrow> World \<Rightarrow> PostResponse \<times> World" where
  "POST env transcript useAIGiven late w =
     (let useAI = (if useAIGiven = Undefined then JBool False else useAIGiven)
      in case transcript of
           JStr t \<Rightarrow>
             if t = [] then (ErrorResponse 400 ''No transcript provided'', w)
             else (case chooseAnalysis env t useAI late w of
                     ((None, actualMethod), w') \<Rightarrow> (ErrorResponse 500 ''Analysis failed'', w')
                   | ((Some analysis, actualMethod), w') \<Rightarrow>
                       (SuccessResponse analysis
                          \<lparr> methodUsed = actualMethod,
                            aiPowered = (actualMethod = ''gemini-ai''),
                            aiAvailable = (GEMINI_API_KEY env \<noteq> []),
                            userRequestedAI = useAI,
                            transcriptLength = length t \<rparr>, w'))
         | _ \<Rightarrow> (ErrorResponse 400 ''No transcript provided'', w))"

section \<open>Scripted surroundings for concrete runs\<close>

text \<open>
  \<open>responseText env request\<close>: the provider answers the request with a success status
  and a body that parses, and \<open>data.candidates?.[0]?.content?.parts?.[0]?.text\<close> is the
  value returned (\<open>None\<close> in every other case).
\<close>

definition responseText :: "Env \<Rightarrow> Request \<Rightarrow> jsval option" where
  "responseText env request =
     (case fetch env request of
        None \<Rightarrow> None
      | Some response \<Rightarrow>
          if \<not> ok response then None
          else case JSON_parse env (body response) of
                 None \<Rightarrow> None
               | Some data \<Rightarrow>
                   (case resultTextOf data of Inl e \<Rightarrow> None | Inr v \<Rightarrow> Some v))"

text \<open>
  A provider with one fixed answer. \<open>JSON.parse\<close> is given by the table of the texts a run
  hands to it, each with the value it denotes; the conversion of strings, arrays and
  objects to numbers is not consulted in these runs, whose scores are numbers.
\<close>

definition scripted :: "string \<Rightarrow> Response option \<Rightarrow> (string \<times> jsval) list \<Rightarrow> Env" where
  "scripted key answer parses =
     \<lparr> GEMINI_API_KEY = key, fetch = (\<lambda>request. answer), JSON_parse = map_of parses,
       toNumberOther = (\<lambda>v. Inr None) \<rparr>"

definition dq :: char where
  "dq = CHR 0x22"

definition bs :: char where
  "bs = CHR 0x5C"

text \<open>The value of a response body whose text field is \<open>t\<close>.\<close>

definition envelope :: "string \<Rightarrow> jsval" where
  "envelope t =
     JObj [(''candidates'',
            JArr [JObj [(''content'', JObj [(''parts'', JArr [JObj [(''text'', JStr t)]])])]])]"

text \<open>
  An answer whose label contradicts its score: the JSON object, the text of the model
  around it, the body of the HTTP response that carries the text, and the value of the
  object.
\<close>

definition answerJson :: string where
  "answerJson =
     ''{'' @ [dq] @ ''managementSentiment'' @ [dq] @ '':{'' @ [dq] @ ''score'' @ [dq] @
     '':90,'' @ [dq] @ ''label'' @ [dq] @ '':'' @ [dq] @ ''negative'' @ [dq] @ '','' @
     [dq] @ ''summary'' @ [dq] @ '':'' @ [dq] @ ''Demand fell'' @ [dq] @ ''},'' @ [dq] @
     ''keyThemes'' @ [dq] @ '':['' @ [dq] @ ''Data center'' @ [dq] @ ''],'' @ [dq] @
     ''overallTone'' @ [dq] @ '':'' @ [dq] @ ''cautious'' @ [dq] @ ''}''"

definition answerText :: string where
  "answerText = ''Here is the analysis: '' @ answerJson"

definition answerBody :: string where
  "answerBody =
     ''{'' @ [dq] @ ''candidates'' @ [dq] @ '':[{'' @ [dq] @ ''content'' @ [dq] @ '':{'' @
     [dq] @ ''parts'' @ [dq] @ '':[{'' @ [dq] @ ''text'' @ [dq] @ '':'' @ [dq] @
     ''Here is the analysis: {'' @ [bs] @ [dq] @ ''managementSentiment'' @ [bs] @ [dq] @
     '':{'' @ [bs] @ [dq] @ ''score'' @ [bs] @ [dq] @ '':90,'' @ [bs] @ [dq] @ ''label'' @
     [bs] @ [dq] @ '':'' @ [bs] @ [dq] @ ''negative'' @ [bs] @ [dq] @ '','' @ [bs] @ [dq] @
     ''summary'' @ [bs] @ [dq] @ '':'' @ [bs] @ [dq] @ ''Demand fell'' @ [bs] @ [dq] @
     ''},'' @ [bs] @ [dq] @ ''keyThemes'' @ [bs] @ [dq] @ '':['' @ [bs] @ [dq] @
     ''Data center'' @ [bs] @ [dq] @ ''],'' @ [bs] @ [dq] @ ''overallTone'' @ [bs] @ [dq] @
     '':'' @ [bs] @ [dq] @ ''cautious'' @ [bs] @ [dq] @ ''}'' @ [dq] @ ''}]}}]}''"

definition answerValue :: jsval where
  "answerValue =
     JObj [(''managementSentiment'',
            JObj [(''score'', JNum 90), (''label'', JStr ''negative''),
                  (''summary'', JStr ''Demand fell'')]),
           (''keyThemes'', JArr [JStr ''Data center'']),
           (''overallTone'', JStr ''cautious'')]"

definition inconsistentProvider :: Env where
  "inconsistentProvider =
     scripted ''test-key'' (Some \<lparr> ok = True, status = 200, body = answerBody \<rparr>)
       [(answerBody, envelope answerText), (answerJson, answerValue)]"

text \<open>
  An answer with a score above the range and with prose behind the JSON object as well as
  in front of it.
\<close>

definition chattyJson :: string where
  "chattyJson =
     ''{'' @ [dq] @ ''managementSentiment'' @ [dq] @ '':{'' @ [dq] @ ''score'' @ [dq] @
     '':150,'' @ [dq] @ ''label'' @ [dq] @ '':'' @ [dq] @ ''negative'' @ [dq] @ '','' @
     [dq] @ ''summary'' @ [dq] @ '':'' @ [dq] @ ''Demand fell'' @ [dq] @ ''},'' @ [dq] @
     ''keyThemes'' @ [dq] @ '':['' @ [dq] @ ''Data center'' @ [dq] @ ''],'' @ [dq] @
     ''overallTone'' @ [dq] @ '':'' @ [dq] @ ''cautious'' @ [dq] @ ''}''"

definition chattyText :: string where
  "chattyText = ''Here is the analysis: '' @ chattyJson @ '' Hope this helps.''"

definition chattyBody :: string where
  "chattyBody =
     ''{'' @ [dq] @ ''candidates'' @ [dq] @ '':[{'' @ [dq] @ ''content'' @ [dq] @ '':{'' @
     [dq] @ ''parts'' @ [dq] @ '':[{'' @ [dq] @ ''text'' @ [dq] @ '':'' @ [dq] @
     ''Here is the analysis: {'' @ [bs] @ [dq] @ ''managementSentiment'' @ [bs] @ [dq] @
     '':{'' @ [bs] @ [dq] @ ''score'' @ [bs] @ [dq] @ '':150,'' @ [bs] @ [dq] @ ''label'' @
     [bs] @ [dq] @ '':'' @ [bs] @ [dq] @ ''negative'' @ [bs] @ [dq] @ '','' @ [bs] @ [dq] @
     ''summary'' @ [bs] @ [dq] @ '':'' @ [bs] @ [dq] @ ''Demand fell'' @ [bs] @ [dq] @
     ''},'' @ [bs] @ [dq] @ ''keyThemes'' @ [bs] @ [dq] @ '':['' @ [bs] @ [dq] @
     ''Data center'' @ [bs] @ [dq] @ ''],'' @ [bs] @ [dq] @ ''overallTone'' @ [bs] @ [dq] @
     '':'' @ [bs] @ [dq] @ ''cautious'' @ [bs] @ [dq] @ ''} Hope this helps.'' @ [dq] @
     ''}]}}]}''"

definition chattyValue :: jsval where
  "chattyValue =
     JObj [(''managementSentiment'',
            JObj [(''score'', JNum 150), (''label'', JStr ''negative''),
                  (''summary'', JStr ''Demand fell'')]),
           (''keyThemes'', JArr [JStr ''Data center'']),
           (''overallTone'', JStr ''cautious'')]"

definition chattyProvider :: Env where
  "chattyProvider =
     scripted ''test-key'' (Some \<lparr> ok = True, status = 200, body = chattyBody \<rparr>)
       [(chattyBody, envelope chattyText), (chattyJson, chattyValue)]"

text \<open>A provider that answers in prose, one that refuses with status 429, and no key.\<close>

definition proseBody :: string where
  "proseBody =
     ''{'' @ [dq] @ ''candidates'' @ [dq] @ '':[{'' @ [dq] @ ''content'' @ [dq] @ '':{'' @
     [dq] @ ''parts'' @ [dq] @ '':[{'' @ [dq] @ ''text'' @ [dq] @ '':'' @ [dq] @
     ''I cannot help with that.'' @ [dq] @ ''}]}}]}''"

definition proseProvider :: Env where
  "proseProvider =
     scripted ''test-key'' (Some \<lparr> ok = True, status = 200, body = proseBody \<rparr>)
       [(proseBody, envelope ''I cannot help with that.'')]"

definition refusingProvider :: Env where
  "refusingProvider =
     scripted ''test-key'' (Some \<lparr> ok = False, status = 429, body = ''quota exceeded'' \<rparr>) []"

definition noKey :: Env where
  "noKey = scripted [] None []"

section \<open>Properties of the keyword analyzer\<close>

subsection \<open>Themes\<close>

lemma pushThemes_filter:
  "pushThemes tbl t acc = acc @ map fst (filter (\<lambda>(name, ks). includesAny t ks) tbl)"
  by (induction tbl arbitrary: acc) auto

lemma detectThemes_table:
  "detectThemes t =
     take 5 (let matched = map fst (filter (\<lambda>(name, ks). includesAny t ks) themeTable)
             in if matched = [] then [''General Business Performance''] else matched)"
  by (simp add: detectThemes_def pushThemes_filter Let_def)

lemma detectThemes_length: "1 \<le> length (detectThemes t) \<and> length (detectThemes t) \<le> 5"
  by (auto simp: detectThemes_def Let_def Suc_le_eq min_def)

text \<open>
  Claim C9. For every input text the \<open>keyThemes\<close> list of the keyword analyzer has between
  1 and 5 entries and is never empty: it is the first five of the categories of the table
  whose trigger substrings occur in the lower-cased text, in table order, or the single
  default theme when no category matches.
\<close>

theorem keyThemes_between_1_and_5:
  "\<exists>r. analyzeTranscript transcriptText = Some r \<and>
     1 \<le> length (keyThemes r) \<and> length (keyThemes r) \<le> 5 \<and> keyThemes r \<noteq> [] \<and>
     keyThemes r =
       take 5 (let matched = map fst (filter (\<lambda>(name, ks).
                                 includesAny (toLowerCase transcriptText) ks) themeTable)
               in if matched = [] then [''General Business Performance''] else matched)"
  using detectThemes_length [of "toLowerCase transcriptText"]
    detectThemes_table [of "toLowerCase transcriptText"]
  by (auto simp: analyzeTranscript_def Let_def)

subsection \<open>Label and tone\<close>

text \<open>
  Claim C5. For every transcript the label of the keyword analyzer is positive exactly
  when the score is at least 65, neutral exactly when it is at least 35 and below 65,
  negative exactly when it is below 35; the tone is confident exactly when the score is at
  least 70, cautious exactly when it is at most 30, and mixed exactly in between.
\<close>

theorem label_and_tone_follow_score:
  "\<exists>r. analyzeTranscript transcriptText = Some r \<and>
     ((label (managementSentiment r) = Positive) = (65 \<le> score (managementSentiment r))) \<and>
     ((label (managementSentiment r) = Neutral) =
        (35 \<le> score (managementSentiment r) \<and> score (managementSentiment r) < 65)) \<and>
     ((label (managementSentiment r) = Negative) = (score (managementSentiment r) < 35)) \<and>
     ((overallTone r = Confident) = (70 \<le> score (managementSentiment r))) \<and>
     ((overallTone r = Cautious) = (score (managementSentiment r) \<le> 30)) \<and>
     ((overallTone r = Mixed) =
        (30 < score (managementSentiment r) \<and> score (managementSentiment r) < 70))"
  by (simp add: analyzeTranscript_def Let_def labelOf_def toneOf_def)

subsection \<open>The Q and A score\<close>

lemma addEach_count:
  "addEach d ws t s = s + d * int (length (filter (includesStr t) ws))"
  by (induction ws arbitrary: s) (auto simp: algebra_simps)

lemma qaRawScore_count:
  "qaRawScore t = 50 + 5 * int (length (filter (includesStr t) confidentWords))
                     - 5 * int (length (filter (includesStr t) defensiveWords))"
  by (simp add: qaRawScore_def addEach_count)

lemma length_confident: "length (filter P confidentWords) \<le> 5"
  using length_filter_le [of P confidentWords] by (simp add: confidentWords_def)

lemma length_defensive: "length (filter P defensiveWords) \<le> 5"
  using length_filter_le [of P defensiveWords] by (simp add: defensiveWords_def)

lemma qaRawScore_range: "25 \<le> qaRawScore t \<and> qaRawScore t \<le> 75 \<and> 5 dvd qaRawScore t"
proof -
  let ?c = "int (length (filter (includesStr t) confidentWords))"
  let ?d = "int (length (filter (includesStr t) defensiveWords))"
  have c: "0 \<le> ?c" "?c \<le> 5" using length_confident [of "includesStr t"] by auto
  have d: "0 \<le> ?d" "?d \<le> 5" using length_defensive [of "includesStr t"] by auto
  have eq: "qaRawScore t = 5 * (10 + ?c - ?d)" by (simp add: qaRawScore_count)
  show ?thesis using c d unfolding eq by auto
qed

text \<open>
  Claim C10. For every input string the score of \<open>analyzeQASection\<close> lies between 25 and
  75 and is a multiple of 5: it is 50, plus 5 for each of the five confident phrases that
  occurs in the lower-cased text, minus 5 for each of the five defensive phrases that
  occurs, each phrase counted once however often it occurs. The clamp to 0..100 leaves the
  value as it is, and 0 and 100 are never reached.
\<close>

theorem qa_score_25_to_75_step_5:
  "25 \<le> score (analyzeQASection qaText) \<and> score (analyzeQASection qaText) \<le> 75 \<and>
   5 dvd score (analyzeQASection qaText) \<and>
   score (analyzeQASection qaText) = qaRawScore (toLowerCase qaText) \<and>
   score (analyzeQASection qaText) =
      50 + 5 * int (length (filter (includesStr (toLowerCase qaText)) confidentWords))
         - 5 * int (length (filter (includesStr (toLowerCase qaText)) defensiveWords))"
proof -
  have r: "25 \<le> qaRawScore (toLowerCase qaText)" "qaRawScore (toLowerCase qaText) \<le> 75"
     "5 dvd qaRawScore (toLowerCase qaText)"
    using qaRawScore_range [of "toLowerCase qaText"] by auto
  then have s: "score (analyzeQASection qaText) = qaRawScore (toLowerCase qaText)"
    by (simp add: analyzeQASection_def Let_def)
  show ?thesis unfolding s using r qaRawScore_count [of "toLowerCase qaText"] by simp
qed

subsection \<open>The score at 23 positive and 17 negative words\<close>

lemma canonicalize_lower:
  "canonicalize CHR ''a'' = CHR ''A''"
  "canonicalize CHR ''b'' = CHR ''B''"
  "canonicalize CHR ''c'' = CHR ''C''"
  "canonicalize CHR ''d'' = CHR ''D''"
  "canonicalize CHR ''e'' = CHR ''E''"
  "canonicalize CHR ''f'' = CHR ''F''"
  "canonicalize CHR ''g'' = CHR ''G''"
  "canonicalize CHR ''h'' = CHR ''H''"
  "canonicalize CHR ''i'' = CHR ''I''"
  "canonicalize CHR ''j'' = CHR ''J''"
  "canonicalize CHR ''k'' = CHR ''K''"
  "canonicalize CHR ''l'' = CHR ''L''"
  "canonicalize CHR ''m'' = CHR ''M''"
  "canonicalize CHR ''n'' = CHR ''N''"
  "canonicalize CHR ''o'' = CHR ''O''"
  "canonicalize CHR ''p'' = CHR ''P''"
  "canonicalize CHR ''q'' = CHR ''Q''"
  "canonicalize CHR ''r'' = CHR ''R''"
  "canonicalize CHR ''s'' = CHR ''S''"
  "canonicalize CHR ''t'' = CHR ''T''"
  "canonicalize CHR ''u'' = CHR ''U''"
  "canonicalize CHR ''v'' = CHR ''V''"
  "canonicalize CHR ''w'' = CHR ''W''"
  "canonicalize CHR ''x'' = CHR ''X''"
  "canonicalize CHR ''y'' = CHR ''Y''"
  "canonicalize CHR ''z'' = CHR ''Z''"
  "canonicalize CHR '' '' = CHR '' ''"
  by code_simp+

lemma isWordChar_units:
  "isWordChar CHR ''g''" "isWordChar CHR ''a''" "isWordChar CHR ''i''" "isWordChar CHR ''n''"
  "isWordChar CHR ''r''" "isWordChar CHR ''s''" "isWordChar CHR ''k''" "\<not> isWordChar CHR '' ''"
  by code_simp+

lemma toLowerChar_units:
  "toLowerChar CHR ''g'' = CHR ''g''" "toLowerChar CHR ''a'' = CHR ''a''"
  "toLowerChar CHR ''i'' = CHR ''i''" "toLowerChar CHR ''n'' = CHR ''n''"
  "toLowerChar CHR ''r'' = CHR ''r''" "toLowerChar CHR ''s'' = CHR ''s''"
  "toLowerChar CHR ''k'' = CHR ''k''" "toLowerChar CHR '' '' = CHR '' ''"
  by code_simp+

lemma count_gain_unit:
  assumes "\<not> isWordAt prev"
  shows "list_all (\<lambda>w. countFrom w prev (''gain '' @ t) =
           (if w = ''gain'' then 1 else 0) + countFrom w (Some CHR '' '') t) sentimentWords"
  using assms
  by (simp add: sentimentWords_def positiveWords_def negativeWords_def
        wordMatchHere_def wordBoundary_def isWordAt_def headOf_def lastOf_def
        canonicalize_lower isWordChar_units)

lemma count_risk_unit:
  assumes "\<not> isWordAt prev"
  shows "list_all (\<lambda>w. countFrom w prev (''risk '' @ t) =
           (if w = ''risk'' then 1 else 0) + countFrom w (Some CHR '' '') t) sentimentWords"
  using assms
  by (simp add: sentimentWords_def positiveWords_def negativeWords_def
        wordMatchHere_def wordBoundary_def isWordAt_def headOf_def lastOf_def
        canonicalize_lower isWordChar_units)

lemma space_not_word: "\<not> isWordAt (Some CHR '' '')"
  by (simp add: isWordAt_def isWordChar_units)

lemma count_gain_units:
  assumes "w \<in> set sentimentWords" and "\<not> isWordAt prev"
  shows "countFrom w prev (concat (replicate k ''gain '') @ t) =
           k * (if w = ''gain'' then 1 else 0) +
           countFrom w (if k = 0 then prev else Some CHR '' '') t"
  using assms(2)
proof (induction k arbitrary: prev)
  case 0
  show ?case by simp
next
  case (Suc k)
  have u: "countFrom w prev (''gain '' @ (concat (replicate k ''gain '') @ t)) =
           (if w = ''gain'' then 1 else 0) +
           countFrom w (Some CHR '' '') (concat (replicate k ''gain '') @ t)"
    using count_gain_unit [OF Suc.prems] assms(1) by (simp add: list_all_iff del: append.simps)
  show ?case
    using u Suc.IH [OF space_not_word] by (simp del: countFrom.simps)
qed

lemma count_risk_units:
  assumes "w \<in> set sentimentWords" and "\<not> isWordAt prev"
  shows "countFrom w prev (concat (replicate k ''risk '') @ t) =
           k * (if w = ''risk'' then 1 else 0) +
           countFrom w (if k = 0 then prev else Some CHR '' '') t"
  using assms(2)
proof (induction k arbitrary: prev)
  case 0
  show ?case by simp
next
  case (Suc k)
  have u: "countFrom w prev (''risk '' @ (concat (replicate k ''risk '') @ t)) =
           (if w = ''risk'' then 1 else 0) +
           countFrom w (Some CHR '' '') (concat (replicate k ''risk '') @ t)"
    using count_risk_unit [OF Suc.prems] assms(1) by (simp add: list_all_iff del: append.simps)
  show ?case
    using u Suc.IH [OF space_not_word] by (simp del: countFrom.simps)
qed

lemma countMatches_transcript23to17:
  assumes "w \<in> set sentimentWords"
  shows "countMatches w transcript23to17 =
           (if w = ''gain'' then 23 else 0) + (if w = ''risk'' then 17 else 0)"
proof -
  have n: "\<not> isWordAt None" by (simp add: isWordAt_def)
  have e: "countFrom w (Some CHR '' '') [] = 0"
    by (simp add: wordMatchHere_def wordBoundary_def headOf_def isWordAt_def isWordChar_units)
  have "countMatches w transcript23to17 =
          23 * (if w = ''gain'' then 1 else 0) +
          countFrom w (Some CHR '' '') (concat (replicate 17 ''risk '') @ [])"
    unfolding countMatches_def transcript23to17_def
    using count_gain_units [OF assms n, of 23] by simp
  also have "countFrom w (Some CHR '' '') (concat (replicate 17 ''risk '') @ []) =
          17 * (if w = ''risk'' then 1 else 0) + countFrom w (Some CHR '' '') []"
    using count_risk_units [OF assms space_not_word, of 17 "[]"] by simp
  finally show ?thesis using e by simp
qed

lemma countWords_sum:
  "countWords ws t acc = acc + sum_list (map (\<lambda>w. countMatches w t) ws)"
  by (induction ws arbitrary: acc) auto

lemma positiveScore_transcript23to17: "positiveScore transcript23to17 = 23"
proof -
  have "map (\<lambda>w. countMatches w transcript23to17) positiveWords =
        map (\<lambda>w. (if w = ''gain'' then 23 else 0) + (if w = ''risk'' then 17 else 0))
          positiveWords"
    by (rule map_cong [OF refl]) (simp add: countMatches_transcript23to17 sentimentWords_def)
  then show ?thesis
    unfolding positiveScore_def countWords_sum by (simp add: positiveWords_def)
qed

lemma negativeScore_transcript23to17: "negativeScore transcript23to17 = 17"
proof -
  have "map (\<lambda>w. countMatches w transcript23to17) negativeWords =
        map (\<lambda>w. (if w = ''gain'' then 23 else 0) + (if w = ''risk'' then 17 else 0))
          negativeWords"
    by (rule map_cong [OF refl]) (simp add: countMatches_transcript23to17 sentimentWords_def)
  then show ?thesis
    unfolding negativeScore_def countWords_sum by (simp add: negativeWords_def)
qed

lemma toLowerCase_transcript23to17: "toLowerCase transcript23to17 = transcript23to17"
  by (simp add: toLowerCase_def transcript23to17_def map_concat toLowerChar_units)

lemma startsWith_set: "startsWith t s \<Longrightarrow> set s \<subseteq> set t"
  by (induction t s rule: startsWith.induct) auto

lemma includesStr_set: "includesStr t s \<Longrightarrow> set s \<subseteq> set t"
proof (induction t)
  case Nil
  then show ?case by simp
next
  case (Cons a t)
  then show ?case using startsWith_set [of "a # t" s] by auto
qed

lemma set_transcript23to17: "set transcript23to17 = set ''gain risk''"
  by (auto simp: transcript23to17_def)

lemma no_strong_transcript23to17: "\<not> hasStrongPhrase transcript23to17"
proof -
  have "CHR ''c'' \<notin> set transcript23to17" by (simp add: set_transcript23to17)
  moreover have "CHR ''c'' \<in> set ''record revenue''"
    "CHR ''c'' \<in> set ''exceeded expectations''"
    by simp_all
  ultimately show ?thesis
    unfolding hasStrongPhrase_def using includesStr_set by blast
qed

lemma ratioScore_23_17: "ratioScore 23 17 = 57"
  by (simp add: ratioScore_def times_double_def divide_double_def roundToDouble_def
        floorLog2_def scaleFrac_def mathRound_def Let_def)

text \<open>
  Claim C4. The claim: the score of the keyword analyzer is 50 when no word of either
  list matches, otherwise the percentage of positive matches among all matches rounded to
  the nearest integer, plus 10 (capped at 100) when a strong phrase occurs. The code
  divides first and multiplies by 100 afterwards, both in double precision: at 23 positive
  and 17 negative matches the quotient 0.575 is rounded down to a double, the product is
  the double just below 57.5, and \<open>Math.round\<close> gives 57, where the percentage 57.5
  rounds to 58.
\<close>

theorem score_57_where_percentage_rounds_to_58:
  "\<exists>r. analyzeTranscript transcript23to17 = Some r \<and>
     positiveScore (toLowerCase transcript23to17) = 23 \<and>
     negativeScore (toLowerCase transcript23to17) = 17 \<and>
     \<not> hasStrongPhrase (toLowerCase transcript23to17) \<and>
     score (managementSentiment r) = 57 \<and>
     round (100 * real (positiveScore (toLowerCase transcript23to17)) /
            real (positiveScore (toLowerCase transcript23to17) +
                  negativeScore (toLowerCase transcript23to17))) = (58 :: int)"
proof -
  have r: "round (100 * real 23 / real (23 + 17)) = (58 :: int)" by (simp add: round_def)
  have s: "sentimentScore transcript23to17 = 57"
    by (simp add: sentimentScore_def boost_def no_strong_transcript23to17
          positiveScore_transcript23to17 negativeScore_transcript23to17 ratioScore_23_17)
  show ?thesis
    using r s
    by (simp add: analyzeTranscript_def Let_def toLowerCase_transcript23to17
          positiveScore_transcript23to17 negativeScore_transcript23to17
          no_strong_transcript23to17)
qed

section \<open>Properties of the rate limiter\<close>

lemma waitIfNeeded_alone:
  "waitIfNeeded late w =
     (let now = clock w;
          reqs = filter (\<lambda>time. now - time < timeWindow) (requests w)
      in if maxRequests \<le> length reqs
         then (case reqs of
                 [] \<Rightarrow> w\<lparr> requests := reqs @ [now] \<rparr>
               | oldestRequest # _ \<Rightarrow>
                   let waitTime = (oldestRequest + timeWindow) - now
                   in if 0 < waitTime
                      then w\<lparr> clock := now + waitTime + int late, requests := reqs @ [now] \<rparr>
                      else w\<lparr> requests := reqs @ [now] \<rparr>)
         else w\<lparr> requests := reqs @ [now] \<rparr>)"
  by (auto simp: waitIfNeeded_def enter_def resume_def Let_def split: list.splits)


















text \<open>
  A caller that meets no other caller goes the same way through the events as through
  \<open>waitIfNeeded\<close>: released at once, or suspended and resumed when its timer fired.
\<close>

lemma lone_caller_released:
  assumes "enter w = (w1, None)"
  shows "run [Enters] (w, []) = Some (waitIfNeeded late w, [])"
  using assms by (simp add: waitIfNeeded_def)

lemma lone_caller_suspended:
  assumes "enter w = (w1, Some (now, due))"
  shows "run [Enters, Pass (nat (due - clock w) + late), Resumes 0] (w, []) =
           Some (waitIfNeeded late w, [])"
proof -
  from assms have c: "clock w1 = clock w" and d: "clock w < due"
    by (auto simp: enter_def Let_def split: if_splits list.splits)
  from d have "clock w + int (nat (due - clock w) + late) = due + int late" by simp
  with assms c show ?thesis by (simp add: waitIfNeeded_def resume_def)
qed










section \<open>Properties of the Gemini analyzer\<close>

subsection \<open>The match of the regular expression\<close>

lemma dropWhile_split:
  assumes "dropWhile P xs = y # ys"
  shows "\<exists>pre. xs = pre @ y # ys \<and> (\<forall>x\<in>set pre. P x) \<and> \<not> P y"
proof (intro exI conjI)
  show "xs = takeWhile P xs @ y # ys" using takeWhile_dropWhile_id [of P xs] assms by simp
  show "\<forall>x\<in>set (takeWhile P xs). P x" by (auto dest: set_takeWhileD)
  show "\<not> P y" using hd_dropWhile [of P xs] assms by simp
qed

lemma jsonMatch_Some_span:
  assumes "jsonMatch s = Some m"
  shows "\<exists>pre mid post. s = pre @ ''{'' @ mid @ ''}'' @ post \<and> m = ''{'' @ mid @ ''}'' \<and>
           CHR ''{'' \<notin> set pre \<and> CHR ''}'' \<notin> set post"
proof -
  from assms obtain c rest where d: "dropWhile (\<lambda>c. c \<noteq> CHR ''{'') s = c # rest"
    and cl: "CHR ''}'' \<in> set rest"
    and m: "m = c # rev (dropWhile (\<lambda>c. c \<noteq> CHR ''}'') (rev rest))"
    by (auto simp: jsonMatch_def split: list.splits if_splits)
  from dropWhile_split [OF d] obtain pre where s: "s = pre @ c # rest"
    and pre: "\<forall>x\<in>set pre. x \<noteq> CHR ''{''" and c: "c = CHR ''{''" by auto
  from cl have "CHR ''}'' \<in> set (rev rest)" by simp
  then obtain y ys where d2: "dropWhile (\<lambda>c. c \<noteq> CHR ''}'') (rev rest) = y # ys"
    by (cases "dropWhile (\<lambda>c. c \<noteq> CHR ''}'') (rev rest)") (auto simp: dropWhile_eq_Nil_conv)
  from dropWhile_split [OF d2] obtain q where r: "rev rest = q @ y # ys"
    and q: "\<forall>x\<in>set q. x \<noteq> CHR ''}''" and y: "y = CHR ''}''" by auto
  from r have "rev (rev rest) = rev (q @ y # ys)" by simp
  then have rest: "rest = rev ys @ y # rev q" by simp
  show ?thesis
  proof (intro exI conjI)
    show "s = pre @ ''{'' @ rev ys @ ''}'' @ rev q" using s rest c y by simp
    show "m = ''{'' @ rev ys @ ''}''" using m d2 c y by simp
    show "CHR ''{'' \<notin> set pre" using pre by auto
    show "CHR ''}'' \<notin> set (rev q)" using q by auto
  qed
qed

lemma jsonMatch_span_Some:
  assumes "CHR ''{'' \<notin> set pre" and "CHR ''}'' \<notin> set post"
  shows "jsonMatch (pre @ ''{'' @ mid @ ''}'' @ post) = Some (''{'' @ mid @ ''}'')"
proof -
  have d: "dropWhile (\<lambda>c. c \<noteq> CHR ''{'') (pre @ ''{'' @ mid @ ''}'' @ post) = CHR ''{'' # (mid @ ''}'' @ post)"
    using assms(1) by (subst dropWhile_append2) auto
  have "dropWhile (\<lambda>c. c \<noteq> CHR ''}'') (rev (mid @ ''}'' @ post)) = CHR ''}'' # rev mid"
    using assms(2) by (simp, subst dropWhile_append2) auto
  then show ?thesis unfolding jsonMatch_def d by simp
qed

lemma jsonMatch_None_iff:
  "jsonMatch s = None \<longleftrightarrow> CHR ''}'' \<notin> set (dropWhile (\<lambda>c. c \<noteq> CHR ''{'') s)"
proof (cases "dropWhile (\<lambda>c. c \<noteq> CHR ''{'') s")
  case Nil
  then show ?thesis unfolding jsonMatch_def by (simp del: dropWhile_eq_Nil_conv)
next
  case (Cons c rest)
  from hd_dropWhile [of "\<lambda>c. c \<noteq> CHR ''{''" s] Cons have "c = CHR ''{''" by simp
  with Cons show ?thesis by (simp add: jsonMatch_def)
qed

subsection \<open>Failures of the analysis request\<close>

lemma readResponse_responseText:
  "readResponse env (fetch env (analysisRequest transcriptText)) =
     (case responseText env (analysisRequest transcriptText) of
        Some v \<Rightarrow> parseAnalysis env v
      | None \<Rightarrow> readResponse env (fetch env (analysisRequest transcriptText)))"
  by (simp add: readResponse_def responseText_def andThen_def split: option.splits sum.splits)

lemma readResponse_no_text:
  "responseText env (analysisRequest transcriptText) = None \<Longrightarrow>
     \<exists>e. readResponse env (fetch env (analysisRequest transcriptText)) = Inl e"
  by (auto simp: readResponse_def responseText_def andThen_def split: option.splits sum.splits if_splits)

lemma analyze_result_tryAnalyze:
  "fst (analyzeTranscriptWithAI env transcriptText late w) =
     (if GEMINI_API_KEY env = [] then None
      else case fst (tryAnalyze env transcriptText late w) of Inl e \<Rightarrow> None | Inr r \<Rightarrow> Some r)"
  by (simp add: analyzeTranscriptWithAI_def split: prod.splits sum.splits)

lemma fst_tryAnalyze:
  "fst (tryAnalyze env transcriptText late w) =
     readResponse env (fetch env (analysisRequest transcriptText))"
  by (simp add: tryAnalyze_def Let_def)

lemma analyze_result:
  "fst (analyzeTranscriptWithAI env transcriptText late w) =
     (if GEMINI_API_KEY env = [] then None
      else case responseText env (analysisRequest transcriptText) of
             None \<Rightarrow> None
           | Some v \<Rightarrow> (case parseAnalysis env v of Inl e \<Rightarrow> None | Inr r \<Rightarrow> Some r))"
proof (cases "responseText env (analysisRequest transcriptText)")
  case None
  from readResponse_no_text [OF this] obtain e where
    "readResponse env (fetch env (analysisRequest transcriptText)) = Inl e" ..
  with None show ?thesis by (simp add: analyze_result_tryAnalyze fst_tryAnalyze)
next
  case (Some v)
  with readResponse_responseText [of env transcriptText]
  have "readResponse env (fetch env (analysisRequest transcriptText)) = parseAnalysis env v"
    by simp
  with Some show ?thesis by (simp add: analyze_result_tryAnalyze fst_tryAnalyze)
qed

text \<open>
  Claim C3. \<open>analyzeTranscriptWithAI\<close> returns \<open>null\<close> (here \<open>None\<close>) in every failure mode and
  never throws: without a key it returns at once and leaves the state as it was (no rate
  limiter slot, no network call); whatever the \<open>try\<close> block throws ends as \<open>null\<close>; so do a
  rejected \<open>fetch\<close>, a status that is not a success, a body that is not JSON, a missing or
  empty text field, a text field that is not a string, a text without a \<open>{...}\<close> match,
  and a match that \<open>JSON.parse\<close> rejects.
\<close>

theorem remote_failures_give_null:
  "(GEMINI_API_KEY env = [] \<longrightarrow> analyzeTranscriptWithAI env transcriptText late w = (None, w)) \<and>
   (\<forall>e. fst (tryAnalyze env transcriptText late w) = Inl e \<longrightarrow>
        fst (analyzeTranscriptWithAI env transcriptText late w) = None) \<and>
   (fetch env (analysisRequest transcriptText) = None \<longrightarrow>
        fst (analyzeTranscriptWithAI env transcriptText late w) = None) \<and>
   (\<forall>response. fetch env (analysisRequest transcriptText) = Some response \<and> \<not> ok response \<longrightarrow>
        fst (analyzeTranscriptWithAI env transcriptText late w) = None) \<and>
   (\<forall>response. fetch env (analysisRequest transcriptText) = Some response \<and>
        JSON_parse env (body response) = None \<longrightarrow>
        fst (analyzeTranscriptWithAI env transcriptText late w) = None) \<and>
   (\<forall>v. responseText env (analysisRequest transcriptText) = Some v \<and> \<not> truthy v \<longrightarrow>
        fst (analyzeTranscriptWithAI env transcriptText late w) = None) \<and>
   (\<forall>v. responseText env (analysisRequest transcriptText) = Some v \<and> (\<forall>s. v \<noteq> JStr s) \<longrightarrow>
        fst (analyzeTranscriptWithAI env transcriptText late w) = None) \<and>
   (\<forall>s. responseText env (analysisRequest transcriptText) = Some (JStr s) \<and> jsonMatch s = None \<longrightarrow>
        fst (analyzeTranscriptWithAI env transcriptText late w) = None) \<and>
   (\<forall>s m. responseText env (analysisRequest transcriptText) = Some (JStr s) \<and> jsonMatch s = Some m \<and>
        JSON_parse env m = None \<longrightarrow>
        fst (analyzeTranscriptWithAI env transcriptText late w) = None)"
proof (intro conjI allI impI)
  assume "GEMINI_API_KEY env = []"
  then show "analyzeTranscriptWithAI env transcriptText late w = (None, w)"
    by (simp add: analyzeTranscriptWithAI_def)
next
  fix e assume "fst (tryAnalyze env transcriptText late w) = Inl e"
  then show "fst (analyzeTranscriptWithAI env transcriptText late w) = None"
    by (simp add: analyze_result_tryAnalyze)
next
  assume "fetch env (analysisRequest transcriptText) = None"
  then show "fst (analyzeTranscriptWithAI env transcriptText late w) = None"
    by (simp add: analyze_result_tryAnalyze fst_tryAnalyze readResponse_def)
next
  fix response
  assume "fetch env (analysisRequest transcriptText) = Some response \<and> \<not> ok response"
  then show "fst (analyzeTranscriptWithAI env transcriptText late w) = None"
    by (simp add: analyze_result_tryAnalyze fst_tryAnalyze readResponse_def)
next
  fix response
  assume "fetch env (analysisRequest transcriptText) = Some response \<and>
        JSON_parse env (body response) = None"
  then show "fst (analyzeTranscriptWithAI env transcriptText late w) = None"
    by (simp add: analyze_result_tryAnalyze fst_tryAnalyze readResponse_def)
next
  fix v assume "responseText env (analysisRequest transcriptText) = Some v \<and> \<not> truthy v"
  then show "fst (analyzeTranscriptWithAI env transcriptText late w) = None"
    by (simp add: analyze_result parseAnalysis_def)
next
  fix v assume "responseText env (analysisRequest transcriptText) = Some v \<and> (\<forall>s. v \<noteq> JStr s)"
  then show "fst (analyzeTranscriptWithAI env transcriptText late w) = None"
    by (cases v) (simp_all add: analyze_result parseAnalysis_def)
next
  fix s assume "responseText env (analysisRequest transcriptText) = Some (JStr s) \<and> jsonMatch s = None"
  then show "fst (analyzeTranscriptWithAI env transcriptText late w) = None"
    by (simp add: analyze_result parseAnalysis_def)
next
  fix s m
  assume "responseText env (analysisRequest transcriptText) = Some (JStr s) \<and> jsonMatch s = Some m \<and>
        JSON_parse env m = None"
  then show "fst (analyzeTranscriptWithAI env transcriptText late w) = None"
    by (simp add: analyze_result parseAnalysis_def)
qed

lemma resultTextOf_envelope: "resultTextOf (envelope t) = Inr (JStr t)"
  by (simp add: resultTextOf_def envelope_def andThen_def optional_def)

lemma responseText_prose:
  "responseText proseProvider request = Some (JStr ''I cannot help with that.'')"
  by (simp add: responseText_def proseProvider_def scripted_def resultTextOf_envelope)

lemma jsonMatch_prose: "jsonMatch ''I cannot help with that.'' = None"
  by (simp add: jsonMatch_def)

theorem remote_failures_give_null_witness:
  "analyzeTranscriptWithAI noKey ''Q3 call'' 0 (fresh 0) = (None, fresh 0) \<and>
   fst (analyzeTranscriptWithAI refusingProvider ''Q3 call'' 0 (fresh 0)) = None \<and>
   fst (analyzeTranscriptWithAI proseProvider ''Q3 call'' 0 (fresh 0)) = None"
proof -
  have k: "GEMINI_API_KEY noKey = []" by (simp add: noKey_def scripted_def)
  have r: "fetch refusingProvider (analysisRequest ''Q3 call'') =
             Some \<lparr> ok = False, status = 429, body = ''quota exceeded'' \<rparr> \<and>
           \<not> ok \<lparr> ok = False, status = 429, body = ''quota exceeded'' \<rparr>"
    by (simp add: refusingProvider_def scripted_def)
  have p: "responseText proseProvider (analysisRequest ''Q3 call'') = Some (JStr ''I cannot help with that.'') \<and>
           jsonMatch ''I cannot help with that.'' = None"
    using responseText_prose jsonMatch_prose by simp
  from remote_failures_give_null [of noKey "''Q3 call''" 0 "fresh 0"] k
  have a: "analyzeTranscriptWithAI noKey ''Q3 call'' 0 (fresh 0) = (None, fresh 0)" by blast
  from remote_failures_give_null [of refusingProvider "''Q3 call''" 0 "fresh 0"] r
  have b: "fst (analyzeTranscriptWithAI refusingProvider ''Q3 call'' 0 (fresh 0)) = None" by blast
  from remote_failures_give_null [of proseProvider "''Q3 call''" 0 "fresh 0"] p
  have c: "fst (analyzeTranscriptWithAI proseProvider ''Q3 call'' 0 (fresh 0)) = None" by blast
  from a b c show ?thesis by simp
qed

subsection \<open>The extracted substring\<close>

text \<open>
  Against claim C6 as stated: on the text \<open>{} or {}\<close> the pattern matches the whole text,
  from the first \<open>{\<close> to the last \<open>}\<close>, while the first balanced object is \<open>{}\<close>.
\<close>

theorem greedy_match_is_not_first_balanced_object:
  "jsonMatch ''{} or {}'' = Some ''{} or {}'' \<and>
   spec_firstBalancedObject ''{} or {}'' = Some ''{}''"
  by (simp add: jsonMatch_def)

lemma jsonMatch_span_iff:
  "(jsonMatch t = Some m) =
     (\<exists>pre mid post. t = pre @ ''{'' @ mid @ ''}'' @ post \<and> m = ''{'' @ mid @ ''}'' \<and>
         CHR ''{'' \<notin> set pre \<and> CHR ''}'' \<notin> set post)"
proof
  assume "jsonMatch t = Some m"
  then show "\<exists>pre mid post. t = pre @ ''{'' @ mid @ ''}'' @ post \<and> m = ''{'' @ mid @ ''}'' \<and>
         CHR ''{'' \<notin> set pre \<and> CHR ''}'' \<notin> set post"
    by (rule jsonMatch_Some_span)
next
  assume "\<exists>pre mid post. t = pre @ ''{'' @ mid @ ''}'' @ post \<and> m = ''{'' @ mid @ ''}'' \<and>
         CHR ''{'' \<notin> set pre \<and> CHR ''}'' \<notin> set post"
  then obtain pre mid post where t: "t = pre @ ''{'' @ mid @ ''}'' @ post"
    and m: "m = ''{'' @ mid @ ''}''"
    and p: "CHR ''{'' \<notin> set pre" "CHR ''}'' \<notin> set post" by blast
  from jsonMatch_span_Some [OF p, of mid] show "jsonMatch t = Some m"
    unfolding t m .
qed

lemma jsonMatch_no_closing:
  assumes "\<forall>pre post. t = pre @ ''{'' @ post \<and> CHR ''{'' \<notin> set pre \<longrightarrow> CHR ''}'' \<notin> set post"
  shows "jsonMatch t = None"
proof (cases "dropWhile (\<lambda>c. c \<noteq> CHR ''{'') t")
  case Nil
  then show ?thesis unfolding jsonMatch_def by (simp del: dropWhile_eq_Nil_conv)
next
  case (Cons c rest)
  from dropWhile_split [OF Cons] obtain pre where t: "t = pre @ c # rest"
    and pre: "\<forall>x\<in>set pre. x \<noteq> CHR ''{''" and c: "c = CHR ''{''" by auto
  from pre have "CHR ''{'' \<notin> set pre" by auto
  with assms t c have "CHR ''}'' \<notin> set rest" by simp
  with Cons c show ?thesis by (simp add: jsonMatch_def)
qed

text \<open>
  Claim C6, amended. For every text of a provider response handled by
  \<open>analyzeTranscriptWithAI\<close>: the pattern has a match exactly when a \<open>}\<close> stands behind the
  first \<open>{\<close> of the text, and the match is the span from that first \<open>{\<close> to the last \<open>}\<close>
  of the text; this span is what is handed to \<open>JSON.parse\<close>, the result is \<open>null\<close> when the
  span does not parse and otherwise what the normalization makes of the parsed span; and
  the result is \<open>null\<close> when no \<open>}\<close> stands behind the first \<open>{\<close>.
\<close>

theorem match_spans_first_to_last_brace:
  assumes "GEMINI_API_KEY env \<noteq> []"
    and "responseText env (analysisRequest transcriptText) = Some (JStr t)"
  shows "(\<forall>m. (jsonMatch t = Some m) =
              (\<exists>pre mid post. t = pre @ ''{'' @ mid @ ''}'' @ post \<and> m = ''{'' @ mid @ ''}'' \<and>
                  CHR ''{'' \<notin> set pre \<and> CHR ''}'' \<notin> set post)) \<and>
         (\<forall>pre mid post.
              t = pre @ ''{'' @ mid @ ''}'' @ post \<and> CHR ''{'' \<notin> set pre \<and> CHR ''}'' \<notin> set post \<longrightarrow>
              fst (analyzeTranscriptWithAI env transcriptText late w) =
                (case JSON_parse env (''{'' @ mid @ ''}'') of
                   None \<Rightarrow> None
                 | Some analysis \<Rightarrow>
                     (case normalize env analysis of Inl e \<Rightarrow> None | Inr r \<Rightarrow> Some r))) \<and>
         ((\<forall>pre post. t = pre @ ''{'' @ post \<and> CHR ''{'' \<notin> set pre \<longrightarrow> CHR ''}'' \<notin> set post) \<longrightarrow>
              fst (analyzeTranscriptWithAI env transcriptText late w) = None)"
proof -
  have span: "fst (analyzeTranscriptWithAI env transcriptText late w) =
                (case JSON_parse env (''{'' @ mid @ ''}'') of
                   None \<Rightarrow> None
                 | Some analysis \<Rightarrow>
                     (case normalize env analysis of Inl e \<Rightarrow> None | Inr r \<Rightarrow> Some r))"
    if d: "t = pre @ ''{'' @ mid @ ''}'' @ post \<and> CHR ''{'' \<notin> set pre \<and> CHR ''}'' \<notin> set post"
    for pre mid post
  proof -
    from d have m: "jsonMatch t = Some (''{'' @ mid @ ''}'')"
      using jsonMatch_span_Some [of pre post mid] by simp
    then have "t \<noteq> []" by (auto simp: jsonMatch_def)
    with m assms show ?thesis
      by (simp add: analyze_result parseAnalysis_def truthy_def split: option.splits)
  qed
  have none: "fst (analyzeTranscriptWithAI env transcriptText late w) = None"
    if "\<forall>pre post. t = pre @ ''{'' @ post \<and> CHR ''{'' \<notin> set pre \<longrightarrow> CHR ''}'' \<notin> set post"
  proof -
    from jsonMatch_no_closing [OF that] assms show ?thesis
      by (simp add: analyze_result parseAnalysis_def)
  qed
  from span none jsonMatch_span_iff [of t] show ?thesis by blast
qed

lemma chattyJson_braces:
  "chattyJson = ''{'' @ butlast (tl chattyJson) @ ''}''"
  by (simp add: chattyJson_def)

lemma chattyText_span:
  "chattyText = ''Here is the analysis: '' @ ''{'' @ butlast (tl chattyJson) @ ''}'' @
                '' Hope this helps.''"
  using chattyJson_braces by (simp add: chattyText_def)

lemma chattyBody_neq_chattyJson: "chattyBody \<noteq> chattyJson"
  by (simp add: chattyBody_def chattyJson_def dq_def bs_def)

lemma responseText_chatty: "responseText chattyProvider request = Some (JStr chattyText)"
  by (simp add: responseText_def chattyProvider_def scripted_def resultTextOf_envelope)

lemma parse_chatty: "JSON_parse chattyProvider chattyJson = Some chattyValue"
  using chattyBody_neq_chattyJson by (simp add: chattyProvider_def scripted_def)

lemma key_chatty: "GEMINI_API_KEY chattyProvider \<noteq> []"
  by (simp add: chattyProvider_def scripted_def)

theorem match_spans_first_to_last_brace_witness:
  "GEMINI_API_KEY chattyProvider \<noteq> [] \<and>
   responseText chattyProvider (analysisRequest ''Q3 call'') = Some (JStr chattyText) \<and>
   chattyText = ''Here is the analysis: '' @ chattyJson @ '' Hope this helps.'' \<and>
   jsonMatch chattyText = Some chattyJson \<and>
   fst (analyzeTranscriptWithAI chattyProvider ''Q3 call'' 0 (fresh 0)) =
     (case normalize chattyProvider chattyValue of Inl e \<Rightarrow> None | Inr r \<Rightarrow> Some r)"
proof -
  note inst = match_spans_first_to_last_brace
    [OF key_chatty responseText_chatty, of "''Q3 call''" 0 "fresh 0"]
  have d: "chattyText = ''Here is the analysis: '' @ ''{'' @ butlast (tl chattyJson) @ ''}'' @
             '' Hope this helps.'' \<and>
           CHR ''{'' \<notin> set ''Here is the analysis: '' \<and> CHR ''}'' \<notin> set '' Hope this helps.''"
    using chattyText_span by simp
  from inst d have m: "jsonMatch chattyText = Some (''{'' @ butlast (tl chattyJson) @ ''}'')"
    by blast
  from inst d have r: "fst (analyzeTranscriptWithAI chattyProvider ''Q3 call'' 0 (fresh 0)) =
      (case JSON_parse chattyProvider (''{'' @ butlast (tl chattyJson) @ ''}'') of
         None \<Rightarrow> None
       | Some analysis \<Rightarrow>
           (case normalize chattyProvider analysis of Inl e \<Rightarrow> None | Inr r \<Rightarrow> Some r))"
    by blast
  from m r show ?thesis
    unfolding chattyJson_braces [symmetric]
    using key_chatty responseText_chatty [of "analysisRequest ''Q3 call''"] parse_chatty
    by (simp add: chattyText_def)
qed

subsection \<open>Score and label of a remote result\<close>

lemma answerJson_braces:
  "answerJson = ''{'' @ butlast (tl answerJson) @ ''}''"
  by (simp add: answerJson_def)

lemma jsonMatch_answerText: "jsonMatch answerText = Some answerJson"
proof -
  have "jsonMatch (''Here is the analysis: '' @ ''{'' @ butlast (tl answerJson) @ ''}'' @ []) =
          Some (''{'' @ butlast (tl answerJson) @ ''}'')"
    by (rule jsonMatch_span_Some) simp_all
  then show ?thesis using answerJson_braces by (simp add: answerText_def)
qed

lemma answerBody_neq_answerJson: "answerBody \<noteq> answerJson"
  by (simp add: answerBody_def answerJson_def dq_def bs_def)

lemma responseText_inconsistent:
  "responseText inconsistentProvider request = Some (JStr answerText)"
  by (simp add: responseText_def inconsistentProvider_def scripted_def resultTextOf_envelope)

lemma parse_inconsistent: "JSON_parse inconsistentProvider answerJson = Some answerValue"
  using answerBody_neq_answerJson by (simp add: inconsistentProvider_def scripted_def)

lemma key_inconsistent: "GEMINI_API_KEY inconsistentProvider \<noteq> []"
  by (simp add: inconsistentProvider_def scripted_def)

lemma normalize_answerValue:
  "normalize env answerValue =
     Inr (JObj [(''managementSentiment'',
                 JObj [(''score'', JNum 90), (''label'', JStr ''negative''),
                       (''summary'', JStr ''Demand fell'')]),
                (''keyThemes'', JArr [JStr ''Data center'']),
                (''overallTone'', JStr ''cautious'')])"
  by (simp add: normalize_def answerValue_def andThen_def clampScore_def toNumber_def)

lemma answerText_nonempty: "answerText \<noteq> []"
  by (simp add: answerText_def)

lemma inconsistent_result:
  "fst (analyzeTranscriptWithAI inconsistentProvider transcriptText late w) =
     Some (JObj [(''managementSentiment'',
                  JObj [(''score'', JNum 90), (''label'', JStr ''negative''),
                        (''summary'', JStr ''Demand fell'')]),
                 (''keyThemes'', JArr [JStr ''Data center'']),
                 (''overallTone'', JStr ''cautious'')])"
  using key_inconsistent
  by (simp add: analyze_result responseText_inconsistent parseAnalysis_def truthy_def
        answerText_nonempty jsonMatch_answerText parse_inconsistent normalize_answerValue)

text \<open>
  Against claim C1 as stated: a provider that answers with score 90 and label
  \<open>negative\<close> is accepted, and the result carries exactly this pair, while the thresholds
  give \<open>positive\<close> for 90.
\<close>

theorem remote_label_contradicts_score:
  "fst (analyzeTranscriptWithAI inconsistentProvider ''Q3 call'' 0 (fresh 0)) =
     Some (JObj [(''managementSentiment'',
                  JObj [(''score'', JNum 90), (''label'', JStr ''negative''),
                        (''summary'', JStr ''Demand fell'')]),
                 (''keyThemes'', JArr [JStr ''Data center'']),
                 (''overallTone'', JStr ''cautious'')]) \<and>
   labelText (labelOf 90) = ''positive''"
  by (simp add: inconsistent_result labelOf_def labelText_def)

lemma clampScore_cases:
  assumes "clampScore env sc = Inr scoreOut"
  shows "(\<forall>x. sc = JNum x \<longrightarrow> scoreOut = JNum (max 0 (min 100 x))) \<and>
         (sc = JNull \<longrightarrow> scoreOut = JNum 0) \<and>
         (\<forall>b. sc = JBool b \<longrightarrow> scoreOut = JNum (if b then 1 else 0)) \<and>
         (sc = Undefined \<or> sc = JNaN \<longrightarrow> scoreOut = JNaN) \<and>
         (\<forall>s. sc = JStr s \<and> list_all isDigit s \<longrightarrow>
            scoreOut = JNum (max 0 (min 100 (real_of_int (decimalOf s))))) \<and>
         ((\<exists>s. sc = JStr s \<and> \<not> list_all isDigit s) \<or> (\<exists>xs. sc = JArr xs) \<or>
          (\<exists>kvs. sc = JObj kvs) \<longrightarrow>
            (toNumberOther env sc = Inr None \<and> scoreOut = JNaN) \<or>
            (\<exists>x. toNumberOther env sc = Inr (Some x) \<and>
                 scoreOut = JNum (max 0 (min 100 x))))"
  using assms
  by (cases sc) (auto simp: clampScore_def toNumber_def split: sum.splits option.splits)

lemma normalize_Inr:
  assumes "normalize env analysis = Inr result"
  shows "\<exists>ms sc lb sm themes tone scoreOut.
           getProp analysis ''managementSentiment'' = Inr ms \<and>
           getProp ms ''score'' = Inr sc \<and> getProp ms ''label'' = Inr lb \<and>
           getProp ms ''summary'' = Inr sm \<and> clampScore env sc = Inr scoreOut \<and>
           result = JObj [(''managementSentiment'',
                           JObj [(''score'', scoreOut), (''label'', lb), (''summary'', sm)]),
                          (''keyThemes'', themes), (''overallTone'', tone)]"
  using assms by (auto simp: normalize_def andThen_def split: sum.splits)

lemma parseAnalysis_Inr:
  assumes "parseAnalysis env v = Inr result"
  shows "\<exists>t m analysis. v = JStr t \<and> jsonMatch t = Some m \<and> JSON_parse env m = Some analysis \<and>
           normalize env analysis = Inr result"
  using assms by (cases v) (auto simp: parseAnalysis_def split: if_splits option.splits)

lemma local_label_thresholds:
  "\<exists>r. analyzeTranscript transcriptText = Some r \<and>
     ((label (managementSentiment r) = Positive) = (65 \<le> score (managementSentiment r))) \<and>
     ((label (managementSentiment r) = Neutral) =
        (35 \<le> score (managementSentiment r) \<and> score (managementSentiment r) < 65)) \<and>
     ((label (managementSentiment r) = Negative) = (score (managementSentiment r) < 35))"
  by (simp add: analyzeTranscript_def Let_def labelOf_def)

lemma qa_label_thresholds:
  "((label (analyzeQASection qaText) = Positive) = (65 \<le> score (analyzeQASection qaText))) \<and>
   ((label (analyzeQASection qaText) = Neutral) =
      (35 \<le> score (analyzeQASection qaText) \<and> score (analyzeQASection qaText) < 65)) \<and>
   ((label (analyzeQASection qaText) = Negative) = (score (analyzeQASection qaText) < 35))"
  by (auto simp: analyzeQASection_def Let_def)

text \<open>
  Claim C1, amended. Every \<open>SentimentAnalysis\<close> built by the keyword analyzer
  (\<open>analyzeTranscript\<close>, \<open>analyzeQASection\<close>) carries the label that the thresholds 65 and 35
  give for its score. For every provider response accepted by \<open>analyzeTranscriptWithAI\<close>
  the label and the summary of the result are those of the parsed object, passed through
  as the provider gave them, and the score of the result is
  \<open>Math.max(0, Math.min(100, score))\<close> of the parsed object: a number clamped into 0..100,
  0 for \<open>null\<close> and \<open>false\<close>, 1 for \<open>true\<close>, \<open>NaN\<close> for a missing score, for a string of
  decimal digits the number it writes, clamped, and for any other string, an array or an
  object what its conversion to a number gives, clamped in the same way (\<open>NaN\<close> when it
  is not numeric).
\<close>

theorem local_labels_follow_score_remote_label_passed_through:
  "(\<exists>r. analyzeTranscript transcriptText = Some r \<and>
        ((label (managementSentiment r) = Positive) = (65 \<le> score (managementSentiment r))) \<and>
        ((label (managementSentiment r) = Neutral) =
           (35 \<le> score (managementSentiment r) \<and> score (managementSentiment r) < 65)) \<and>
        ((label (managementSentiment r) = Negative) = (score (managementSentiment r) < 35))) \<and>
   ((label (analyzeQASection qaText) = Positive) = (65 \<le> score (analyzeQASection qaText))) \<and>
   ((label (analyzeQASection qaText) = Neutral) =
      (35 \<le> score (analyzeQASection qaText) \<and> score (analyzeQASection qaText) < 65)) \<and>
   ((label (analyzeQASection qaText) = Negative) = (score (analyzeQASection qaText) < 35)) \<and>
   (\<forall>result. fst (analyzeTranscriptWithAI env transcriptText late w) = Some result \<longrightarrow>
      (\<exists>t m analysis ms sc lb sm themes tone scoreOut.
          responseText env (analysisRequest transcriptText) = Some (JStr t) \<and>
          jsonMatch t = Some m \<and> JSON_parse env m = Some analysis \<and>
          getProp analysis ''managementSentiment'' = Inr ms \<and>
          getProp ms ''score'' = Inr sc \<and> getProp ms ''label'' = Inr lb \<and>
          getProp ms ''summary'' = Inr sm \<and>
          result = JObj [(''managementSentiment'',
                          JObj [(''score'', scoreOut), (''label'', lb), (''summary'', sm)]),
                         (''keyThemes'', themes), (''overallTone'', tone)] \<and>
          (\<forall>x. sc = JNum x \<longrightarrow> scoreOut = JNum (max 0 (min 100 x))) \<and>
          (sc = JNull \<longrightarrow> scoreOut = JNum 0) \<and>
          (\<forall>b. sc = JBool b \<longrightarrow> scoreOut = JNum (if b then 1 else 0)) \<and>
          (sc = Undefined \<or> sc = JNaN \<longrightarrow> scoreOut = JNaN) \<and>
          (\<forall>s. sc = JStr s \<and> list_all isDigit s \<longrightarrow>
             scoreOut = JNum (max 0 (min 100 (real_of_int (decimalOf s))))) \<and>
          ((\<exists>s. sc = JStr s \<and> \<not> list_all isDigit s) \<or> (\<exists>xs. sc = JArr xs) \<or>
           (\<exists>kvs. sc = JObj kvs) \<longrightarrow>
             (toNumberOther env sc = Inr None \<and> scoreOut = JNaN) \<or>
             (\<exists>x. toNumberOther env sc = Inr (Some x) \<and>
                  scoreOut = JNum (max 0 (min 100 x))))))"
proof -
  have remote: "\<exists>t m analysis ms sc lb sm themes tone scoreOut.
          responseText env (analysisRequest transcriptText) = Some (JStr t) \<and>
          jsonMatch t = Some m \<and> JSON_parse env m = Some analysis \<and>
          getProp analysis ''managementSentiment'' = Inr ms \<and>
          getProp ms ''score'' = Inr sc \<and> getProp ms ''label'' = Inr lb \<and>
          getProp ms ''summary'' = Inr sm \<and>
          result = JObj [(''managementSentiment'',
                          JObj [(''score'', scoreOut), (''label'', lb), (''summary'', sm)]),
                         (''keyThemes'', themes), (''overallTone'', tone)] \<and>
          (\<forall>x. sc = JNum x \<longrightarrow> scoreOut = JNum (max 0 (min 100 x))) \<and>
          (sc = JNull \<longrightarrow> scoreOut = JNum 0) \<and>
          (\<forall>b. sc = JBool b \<longrightarrow> scoreOut = JNum (if b then 1 else 0)) \<and>
          (sc = Undefined \<or> sc = JNaN \<longrightarrow> scoreOut = JNaN) \<and>
          (\<forall>s. sc = JStr s \<and> list_all isDigit s \<longrightarrow>
             scoreOut = JNum (max 0 (min 100 (real_of_int (decimalOf s))))) \<and>
          ((\<exists>s. sc = JStr s \<and> \<not> list_all isDigit s) \<or> (\<exists>xs. sc = JArr xs) \<or>
           (\<exists>kvs. sc = JObj kvs) \<longrightarrow>
             (toNumberOther env sc = Inr None \<and> scoreOut = JNaN) \<or>
             (\<exists>x. toNumberOther env sc = Inr (Some x) \<and>
                  scoreOut = JNum (max 0 (min 100 x))))"
    if a: "fst (analyzeTranscriptWithAI env transcriptText late w) = Some result" for result
  proof -
    from a obtain v where v: "responseText env (analysisRequest transcriptText) = Some v"
      and p: "parseAnalysis env v = Inr result"
      by (auto simp: analyze_result split: if_splits option.splits sum.splits)
    from parseAnalysis_Inr [OF p] obtain t m analysis where
      t: "v = JStr t" "jsonMatch t = Some m" "JSON_parse env m = Some analysis"
      and n: "normalize env analysis = Inr result" by blast
    from normalize_Inr [OF n] obtain ms sc lb sm themes tone scoreOut where
      f: "getProp analysis ''managementSentiment'' = Inr ms" "getProp ms ''score'' = Inr sc"
         "getProp ms ''label'' = Inr lb" "getProp ms ''summary'' = Inr sm"
         "result = JObj [(''managementSentiment'',
                          JObj [(''score'', scoreOut), (''label'', lb), (''summary'', sm)]),
                         (''keyThemes'', themes), (''overallTone'', tone)]"
      and c: "clampScore env sc = Inr scoreOut"
      by blast
    from v t have rt: "responseText env (analysisRequest transcriptText) = Some (JStr t)"
      by simp
    note cc = clampScore_cases [OF c]
    show ?thesis
      apply (rule exI [of _ t], rule exI [of _ m], rule exI [of _ analysis])
      apply (rule exI [of _ ms], rule exI [of _ sc], rule exI [of _ lb], rule exI [of _ sm])
      apply (rule exI [of _ themes], rule exI [of _ tone], rule exI [of _ scoreOut])
      apply (rule conjI, rule rt)
      apply (rule conjI, rule t(2))
      apply (rule conjI, rule t(3))
      apply (rule conjI, rule f(1))
      apply (rule conjI, rule f(2))
      apply (rule conjI, rule f(3))
      apply (rule conjI, rule f(4))
      apply (rule conjI, rule f(5))
      apply (rule cc)
      done
  qed
  note q = qa_label_thresholds [of qaText]
  show ?thesis
    apply (rule conjI, rule local_label_thresholds)
    apply (rule conjI, rule q [THEN conjunct1])
    apply (rule conjI, rule q [THEN conjunct2, THEN conjunct1])
    apply (rule conjI, rule q [THEN conjunct2, THEN conjunct2])
    apply (rule allI, rule impI, erule remote)
    done
qed

lemma normalize_chattyValue:
  "normalize env chattyValue =
     Inr (JObj [(''managementSentiment'',
                 JObj [(''score'', JNum 100), (''label'', JStr ''negative''),
                       (''summary'', JStr ''Demand fell'')]),
                (''keyThemes'', JArr [JStr ''Data center'']),
                (''overallTone'', JStr ''cautious'')])"
  by (simp add: normalize_def chattyValue_def andThen_def clampScore_def toNumber_def)

lemma jsonMatch_chattyText: "jsonMatch chattyText = Some chattyJson"
proof -
  have "jsonMatch (''Here is the analysis: '' @ ''{'' @ butlast (tl chattyJson) @ ''}'' @
                   '' Hope this helps.'') = Some (''{'' @ butlast (tl chattyJson) @ ''}'')"
    by (rule jsonMatch_span_Some) simp_all
  then show ?thesis
    unfolding chattyText_span [symmetric] chattyJson_braces [symmetric] .
qed

lemma chatty_accepted:
  "\<exists>result. fst (analyzeTranscriptWithAI chattyProvider transcriptText late w) = Some result"
proof -
  have "chattyText \<noteq> []" by (simp add: chattyText_def)
  then show ?thesis
    using key_chatty
    by (simp add: analyze_result responseText_chatty parseAnalysis_def truthy_def
          jsonMatch_chattyText parse_chatty normalize_chattyValue)
qed

lemma chatty_score:
  "getProp chattyValue ''managementSentiment'' =
     Inr (JObj [(''score'', JNum 150), (''label'', JStr ''negative''),
                (''summary'', JStr ''Demand fell'')])"
  by (simp add: chattyValue_def)

theorem remote_label_passed_through_witness:
  "\<exists>result. fst (analyzeTranscriptWithAI chattyProvider ''Q3 call'' 0 (fresh 0)) = Some result \<and>
     getProp chattyValue ''managementSentiment'' =
       Inr (JObj [(''score'', JNum 150), (''label'', JStr ''negative''),
                  (''summary'', JStr ''Demand fell'')]) \<and>
     getProp result ''managementSentiment'' =
       Inr (JObj [(''score'', JNum 100), (''label'', JStr ''negative''),
                  (''summary'', JStr ''Demand fell'')])"
proof -
  obtain result where
    r: "fst (analyzeTranscriptWithAI chattyProvider ''Q3 call'' 0 (fresh 0)) = Some result"
    using chatty_accepted by blast
  note remote = local_labels_follow_score_remote_label_passed_through
         [of "''Q3 call''" "[]" chattyProvider 0 "fresh 0",
          THEN conjunct2, THEN conjunct2, THEN conjunct2, THEN conjunct2, THEN spec, THEN mp,
          OF r]
  from remote obtain t m analysis ms sc lb sm themes tone scoreOut where
    f: "responseText chattyProvider (analysisRequest ''Q3 call'') = Some (JStr t)"
       "jsonMatch t = Some m" "JSON_parse chattyProvider m = Some analysis"
       "getProp analysis ''managementSentiment'' = Inr ms"
       "getProp ms ''score'' = Inr sc" "getProp ms ''label'' = Inr lb"
       "getProp ms ''summary'' = Inr sm"
       "result = JObj [(''managementSentiment'',
                        JObj [(''score'', scoreOut), (''label'', lb), (''summary'', sm)]),
                       (''keyThemes'', themes), (''overallTone'', tone)]"
    and num: "\<forall>x. sc = JNum x \<longrightarrow> scoreOut = JNum (max 0 (min 100 x))"
    by (elim exE conjE) (rule that; assumption)
  from f(1) have t: "t = chattyText" by (simp add: responseText_chatty)
  with f(2) have m: "m = chattyJson" by (simp add: jsonMatch_chattyText)
  with f(3) have a: "analysis = chattyValue" by (simp add: parse_chatty)
  with f(4) have ms: "ms = JObj [(''score'', JNum 150), (''label'', JStr ''negative''),
                                (''summary'', JStr ''Demand fell'')]"
    by (simp add: chatty_score)
  with f(5,6,7) have v: "sc = JNum 150" "lb = JStr ''negative''" "sm = JStr ''Demand fell''"
    by simp_all
  with num have "scoreOut = JNum (max 0 (min 100 150))" by blast
  then have "scoreOut = JNum 100" by simp
  with f(8) v have "getProp result ''managementSentiment'' =
       Inr (JObj [(''score'', JNum 100), (''label'', JStr ''negative''),
                  (''summary'', JStr ''Demand fell'')])" by simp
  with r chatty_score show ?thesis by blast
qed

subsection \<open>The comparison of quarters\<close>

lemma readComparison_responseText:
  "readComparison env (fetch env request) =
     (case responseText env request of
        None \<Rightarrow> readComparison env (fetch env request)
      | Some found \<Rightarrow>
          (case (if truthy found then found else JStr []) of
             JStr s \<Rightarrow>
               (case jsonMatch s of
                  Some m \<Rightarrow>
                    (case JSON_parse env m of None \<Rightarrow> Inl SyntaxError | Some v \<Rightarrow> Inr (Some v))
                | None \<Rightarrow> Inr None)
           | _ \<Rightarrow> Inl TypeError))"
  by (simp add: readComparison_def responseText_def andThen_def split: option.splits sum.splits)

lemma readComparison_no_text:
  "responseText env request = None \<Longrightarrow> readComparison env (fetch env request) \<noteq> Inr (Some v)"
  by (auto simp: readComparison_def responseText_def andThen_def
      split: option.splits sum.splits if_splits)

lemma compare_result:
  assumes "GEMINI_API_KEY env \<noteq> []" and "2 \<le> length transcripts"
  shows "fst (compareQuartersWithAI env transcripts late w) =
           (case readComparison env (fetch env (comparisonRequest transcripts)) of
              Inr (Some v) \<Rightarrow> v
            | Inr None \<Rightarrow> comparisonUnavailable
            | Inl e \<Rightarrow> comparisonUnavailable)"
  using assms
  by (simp add: compareQuartersWithAI_def Let_def split: sum.splits option.splits)

lemma jsonMatch_Nil: "jsonMatch [] = None"
  by (simp add: jsonMatch_def)

text \<open>
  Claim C7. \<open>compareQuartersWithAI\<close> returns the fixed result with the insight
  \<open>Not enough data for AI comparison\<close> and leaves the state as it was (no rate limiter slot,
  no network call) whenever the key is missing or fewer than 2 transcripts are given.
  Otherwise it returns the fixed result with the insight \<open>AI comparison unavailable\<close> on
  every failure: whatever the \<open>try\<close> block throws, a rejected \<open>fetch\<close>, a status that is
  not a success, a body that is not JSON, a missing text field, a text field that is not a
  string, a text without a \<open>{...}\<close> match, and a match that \<open>JSON.parse\<close> rejects.
\<close>

theorem comparison_fallbacks:
  "notEnoughData =
     JObj [(''trend'', JStr ''stable''),
           (''insights'', JArr [JStr ''Not enough data for AI comparison''])] \<and>
   comparisonUnavailable =
     JObj [(''trend'', JStr ''stable''), (''insights'', JArr [JStr ''AI comparison unavailable''])] \<and>
   (GEMINI_API_KEY env = [] \<or> length transcripts < 2 \<longrightarrow>
      compareQuartersWithAI env transcripts late w = (notEnoughData, w)) \<and>
   (GEMINI_API_KEY env \<noteq> [] \<and> 2 \<le> length transcripts \<longrightarrow>
      (\<forall>e. readComparison env (fetch env (comparisonRequest transcripts)) = Inl e \<longrightarrow>
           fst (compareQuartersWithAI env transcripts late w) = comparisonUnavailable) \<and>
      (fetch env (comparisonRequest transcripts) = None \<longrightarrow>
           fst (compareQuartersWithAI env transcripts late w) = comparisonUnavailable) \<and>
      (\<forall>response. fetch env (comparisonRequest transcripts) = Some response \<and> \<not> ok response \<longrightarrow>
           fst (compareQuartersWithAI env transcripts late w) = comparisonUnavailable) \<and>
      (\<forall>response. fetch env (comparisonRequest transcripts) = Some response \<and>
           JSON_parse env (body response) = None \<longrightarrow>
           fst (compareQuartersWithAI env transcripts late w) = comparisonUnavailable) \<and>
      (responseText env (comparisonRequest transcripts) = None \<longrightarrow>
           fst (compareQuartersWithAI env transcripts late w) = comparisonUnavailable) \<and>
      (\<forall>found. responseText env (comparisonRequest transcripts) = Some found \<and> \<not> truthy found \<longrightarrow>
           fst (compareQuartersWithAI env transcripts late w) = comparisonUnavailable) \<and>
      (\<forall>found. responseText env (comparisonRequest transcripts) = Some found \<and>
           (\<forall>s. found \<noteq> JStr s) \<longrightarrow>
           fst (compareQuartersWithAI env transcripts late w) = comparisonUnavailable) \<and>
      (\<forall>s. responseText env (comparisonRequest transcripts) = Some (JStr s) \<and>
           jsonMatch s = None \<longrightarrow>
           fst (compareQuartersWithAI env transcripts late w) = comparisonUnavailable) \<and>
      (\<forall>s m. responseText env (comparisonRequest transcripts) = Some (JStr s) \<and>
           jsonMatch s = Some m \<and> JSON_parse env m = None \<longrightarrow>
           fst (compareQuartersWithAI env transcripts late w) = comparisonUnavailable))"
proof (intro conjI impI allI)
  show "notEnoughData =
     JObj [(''trend'', JStr ''stable''),
           (''insights'', JArr [JStr ''Not enough data for AI comparison''])]"
    by (simp add: notEnoughData_def)
  show "comparisonUnavailable =
     JObj [(''trend'', JStr ''stable''), (''insights'', JArr [JStr ''AI comparison unavailable''])]"
    by (simp add: comparisonUnavailable_def)
next
  assume "GEMINI_API_KEY env = [] \<or> length transcripts < 2"
  then show "compareQuartersWithAI env transcripts late w = (notEnoughData, w)"
    by (auto simp: compareQuartersWithAI_def)
next
  fix e
  assume k: "GEMINI_API_KEY env \<noteq> [] \<and> 2 \<le> length transcripts"
    and "readComparison env (fetch env (comparisonRequest transcripts)) = Inl e"
  then show "fst (compareQuartersWithAI env transcripts late w) = comparisonUnavailable"
    by (simp add: compare_result)
next
  assume k: "GEMINI_API_KEY env \<noteq> [] \<and> 2 \<le> length transcripts"
    and "fetch env (comparisonRequest transcripts) = None"
  then show "fst (compareQuartersWithAI env transcripts late w) = comparisonUnavailable"
    by (simp add: compare_result readComparison_def)
next
  fix response
  assume k: "GEMINI_API_KEY env \<noteq> [] \<and> 2 \<le> length transcripts"
    and "fetch env (comparisonRequest transcripts) = Some response \<and> \<not> ok response"
  then show "fst (compareQuartersWithAI env transcripts late w) = comparisonUnavailable"
    by (simp add: compare_result readComparison_def)
next
  fix response
  assume k: "GEMINI_API_KEY env \<noteq> [] \<and> 2 \<le> length transcripts"
    and "fetch env (comparisonRequest transcripts) = Some response \<and>
           JSON_parse env (body response) = None"
  then show "fst (compareQuartersWithAI env transcripts late w) = comparisonUnavailable"
    by (simp add: compare_result readComparison_def)
next
  assume k: "GEMINI_API_KEY env \<noteq> [] \<and> 2 \<le> length transcripts"
    and n: "responseText env (comparisonRequest transcripts) = None"
  from readComparison_no_text [OF n] k
  show "fst (compareQuartersWithAI env transcripts late w) = comparisonUnavailable"
    by (simp add: compare_result split: sum.splits option.splits)
next
  fix found
  assume k: "GEMINI_API_KEY env \<noteq> [] \<and> 2 \<le> length transcripts"
    and "responseText env (comparisonRequest transcripts) = Some found \<and> \<not> truthy found"
  then show "fst (compareQuartersWithAI env transcripts late w) = comparisonUnavailable"
    by (simp add: compare_result readComparison_responseText jsonMatch_Nil)
next
  fix found
  assume k: "GEMINI_API_KEY env \<noteq> [] \<and> 2 \<le> length transcripts"
    and f: "responseText env (comparisonRequest transcripts) = Some found \<and>
           (\<forall>s. found \<noteq> JStr s)"
  then show "fst (compareQuartersWithAI env transcripts late w) = comparisonUnavailable"
    by (cases found) (simp_all add: compare_result readComparison_responseText jsonMatch_Nil)
next
  fix s
  assume k: "GEMINI_API_KEY env \<noteq> [] \<and> 2 \<le> length transcripts"
    and "responseText env (comparisonRequest transcripts) = Some (JStr s) \<and> jsonMatch s = None"
  then show "fst (compareQuartersWithAI env transcripts late w) = comparisonUnavailable"
    by (simp add: compare_result readComparison_responseText jsonMatch_Nil)
next
  fix s m
  assume k: "GEMINI_API_KEY env \<noteq> [] \<and> 2 \<le> length transcripts"
    and "responseText env (comparisonRequest transcripts) = Some (JStr s) \<and>
           jsonMatch s = Some m \<and> JSON_parse env m = None"
  then show "fst (compareQuartersWithAI env transcripts late w) = comparisonUnavailable"
    by (simp add: compare_result readComparison_responseText jsonMatch_Nil)
qed

theorem comparison_fallbacks_witness:
  "compareQuartersWithAI noKey [(''Q1 2024'', ''growth''), (''Q2 2024'', ''decline'')] 0 (fresh 0) =
     (notEnoughData, fresh 0) \<and>
   compareQuartersWithAI proseProvider [(''Q1 2024'', ''growth'')] 0 (fresh 0) =
     (notEnoughData, fresh 0) \<and>
   fst (compareQuartersWithAI refusingProvider
          [(''Q1 2024'', ''growth''), (''Q2 2024'', ''decline'')] 0 (fresh 0)) =
     comparisonUnavailable \<and>
   fst (compareQuartersWithAI proseProvider
          [(''Q1 2024'', ''growth''), (''Q2 2024'', ''decline'')] 0 (fresh 0)) =
     comparisonUnavailable"
proof -
  let ?two = "[(''Q1 2024'', ''growth''), (''Q2 2024'', ''decline'')]"
  have k: "GEMINI_API_KEY noKey = []" by (simp add: noKey_def scripted_def)
  have one: "length [(''Q1 2024'', ''growth'')] < 2" by simp
  have r: "GEMINI_API_KEY refusingProvider \<noteq> [] \<and> 2 \<le> length ?two"
       "fetch refusingProvider (comparisonRequest ?two) =
          Some \<lparr> ok = False, status = 429, body = ''quota exceeded'' \<rparr> \<and>
        \<not> ok \<lparr> ok = False, status = 429, body = ''quota exceeded'' \<rparr>"
    by (simp_all add: refusingProvider_def scripted_def)
  have p: "GEMINI_API_KEY proseProvider \<noteq> [] \<and> 2 \<le> length ?two"
       "responseText proseProvider (comparisonRequest ?two) = Some (JStr ''I cannot help with that.'') \<and>
        jsonMatch ''I cannot help with that.'' = None"
    using responseText_prose jsonMatch_prose by (simp_all add: proseProvider_def scripted_def)
  from comparison_fallbacks [of noKey ?two 0 "fresh 0"] k
  have a: "compareQuartersWithAI noKey ?two 0 (fresh 0) = (notEnoughData, fresh 0)" by blast
  from comparison_fallbacks [of proseProvider "[(''Q1 2024'', ''growth'')]" 0 "fresh 0"] one
  have b: "compareQuartersWithAI proseProvider [(''Q1 2024'', ''growth'')] 0 (fresh 0) =
     (notEnoughData, fresh 0)" by blast
  from comparison_fallbacks [of refusingProvider ?two 0 "fresh 0"] r
  have c: "fst (compareQuartersWithAI refusingProvider ?two 0 (fresh 0)) = comparisonUnavailable"
    by blast
  from comparison_fallbacks [of proseProvider ?two 0 "fresh 0"] p
  have d: "fst (compareQuartersWithAI proseProvider ?two 0 (fresh 0)) = comparisonUnavailable"
    by blast
  from a b c d show ?thesis by simp
qed

section \<open>Properties of the route handler\<close>

lemma analyzeTranscript_Some: "\<exists>r. analyzeTranscript transcript = Some r"
  by (simp add: analyzeTranscript_def Let_def)

lemma fetches_waitIfNeeded: "fetches (waitIfNeeded late w) = fetches w"
  by (auto simp: waitIfNeeded_alone Let_def split: list.splits)

lemma fetches_analyze:
  "fetches (snd (analyzeTranscriptWithAI env transcript late w)) =
     (if GEMINI_API_KEY env = [] then fetches w else fetches w @ [analysisRequest transcript])"
  by (simp add: analyzeTranscriptWithAI_def tryAnalyze_def Let_def fetches_waitIfNeeded
      split: prod.splits sum.splits)

lemma analyze_Some_truthy:
  assumes "fst (analyzeTranscriptWithAI env transcript late w) = Some a"
  shows "truthy a"
proof -
  from assms obtain v where "parseAnalysis env v = Inr a"
    by (auto simp: analyze_result split: if_splits option.splits sum.splits)
  from parseAnalysis_Inr [OF this] obtain analysis where "normalize env analysis = Inr a"
    by blast
  from normalize_Inr [OF this] show ?thesis by (auto simp: truthy_def)
qed

lemma chooseAnalysis_cases:
  "chooseAnalysis env transcript useAI late w =
     (if truthy useAI \<and> GEMINI_API_KEY env \<noteq> []
      then (case fst (analyzeTranscriptWithAI env transcript late w) of
              Some a \<Rightarrow> ((Some (GeminiAnalysis a), ''gemini-ai''),
                         snd (analyzeTranscriptWithAI env transcript late w))
            | None \<Rightarrow> ((map_option KeywordAnalysis (analyzeTranscript transcript),
                         ''keyword-analysis''),
                        snd (analyzeTranscriptWithAI env transcript late w)))
      else ((map_option KeywordAnalysis (analyzeTranscript transcript), ''keyword-analysis''), w))"
proof -
  obtain res w' where e: "analyzeTranscriptWithAI env transcript late w = (res, w')"
    by (cases "analyzeTranscriptWithAI env transcript late w")
  show ?thesis
  proof (cases res)
    case None
    with e show ?thesis by (simp add: chooseAnalysis_def)
  next
    case (Some a)
    with e have "fst (analyzeTranscriptWithAI env transcript late w) = Some a" by simp
    from analyze_Some_truthy [OF this] e Some show ?thesis by (simp add: chooseAnalysis_def)
  qed
qed

lemma key_empty_None: "GEMINI_API_KEY env = [] \<Longrightarrow> fst (analyzeTranscriptWithAI env t late w) = None"
  by (simp add: analyzeTranscriptWithAI_def)

text \<open>
  Claim C8. For every transcript for which the handler, asked for AI, makes a remote
  attempt that returns \<open>null\<close> (and likewise when no key is set), \<open>POST\<close> answers with the
  result of \<open>analyzeTranscript\<close> on the same transcript, itself and unchanged, under the name
  \<open>keyword-analysis\<close>. A network call is made only for a transcript that is not empty, with
  AI asked for and a key set. In every successful answer \<open>methodUsed\<close> names the analyzer
  whose result is returned: \<open>gemini-ai\<close> with the result of \<open>analyzeTranscriptWithAI\<close>,
  \<open>keyword-analysis\<close> with the result of \<open>analyzeTranscript\<close>.
\<close>

theorem fallback_is_keyword_result:
  "(transcript \<noteq> [] \<and> truthy useAI \<and>
    fst (analyzeTranscriptWithAI env transcript late w) = None \<longrightarrow>
      (\<exists>r md w'. POST env (JStr transcript) useAI late w =
                    (SuccessResponse (KeywordAnalysis r) md, w') \<and>
                  analyzeTranscript transcript = Some r \<and>
                  methodUsed md = ''keyword-analysis'' \<and> \<not> aiPowered md)) \<and>
   (fetches (snd (POST env (JStr transcript) useAI late w)) \<noteq> fetches w \<longrightarrow>
      transcript \<noteq> [] \<and> truthy useAI \<and> GEMINI_API_KEY env \<noteq> []) \<and>
   (\<forall>a md w'. POST env (JStr transcript) useAI late w = (SuccessResponse a md, w') \<longrightarrow>
      (methodUsed md = ''gemini-ai'' \<and> aiPowered md \<and> truthy useAI \<and>
       (\<exists>j. a = GeminiAnalysis j \<and>
            fst (analyzeTranscriptWithAI env transcript late w) = Some j)) \<or>
      (methodUsed md = ''keyword-analysis'' \<and> \<not> aiPowered md \<and>
       (\<exists>r. a = KeywordAnalysis r \<and> analyzeTranscript transcript = Some r)))"
proof -
  obtain r where r: "analyzeTranscript transcript = Some r"
    using analyzeTranscript_Some by blast
  let ?u = "if useAI = Undefined then JBool False else useAI"
  have tu: "truthy ?u = truthy useAI" by (auto simp: truthy_def)
  have fallback: "\<exists>r md w'. POST env (JStr transcript) useAI late w =
                    (SuccessResponse (KeywordAnalysis r) md, w') \<and>
                  analyzeTranscript transcript = Some r \<and>
                  methodUsed md = ''keyword-analysis'' \<and> \<not> aiPowered md"
    if h: "transcript \<noteq> [] \<and> truthy useAI \<and>
           fst (analyzeTranscriptWithAI env transcript late w) = None"
  proof -
    from h have u: "useAI \<noteq> Undefined" by (auto simp: truthy_def)
    from h r u show ?thesis by (simp add: POST_def chooseAnalysis_cases)
  qed
  have attempt: "transcript \<noteq> [] \<and> truthy useAI \<and> GEMINI_API_KEY env \<noteq> []"
    if f: "fetches (snd (POST env (JStr transcript) useAI late w)) \<noteq> fetches w"
  proof -
    have t: "transcript \<noteq> []" using f by (auto simp: POST_def)
    have "truthy ?u \<and> GEMINI_API_KEY env \<noteq> []"
      using f t r
      by (auto simp: POST_def chooseAnalysis_cases Let_def split: if_splits option.splits)
    with t tu show ?thesis by simp
  qed
  have named: "(methodUsed md = ''gemini-ai'' \<and> aiPowered md \<and> truthy useAI \<and>
       (\<exists>j. a = GeminiAnalysis j \<and>
            fst (analyzeTranscriptWithAI env transcript late w) = Some j)) \<or>
      (methodUsed md = ''keyword-analysis'' \<and> \<not> aiPowered md \<and>
       (\<exists>r. a = KeywordAnalysis r \<and> analyzeTranscript transcript = Some r))"
    if p: "POST env (JStr transcript) useAI late w = (SuccessResponse a md, w')" for a md w'
  proof -
    have t: "transcript \<noteq> []" using p by (auto simp: POST_def)
    show ?thesis
    proof (cases "truthy ?u \<and> GEMINI_API_KEY env \<noteq> []")
      case False
      with p t r show ?thesis
        by (auto simp: POST_def chooseAnalysis_cases Let_def)
    next
      case True
      show ?thesis
      proof (cases "fst (analyzeTranscriptWithAI env transcript late w)")
        case None
        with p t r True show ?thesis
          by (auto simp: POST_def chooseAnalysis_cases Let_def)
      next
        case (Some j)
        with p t True tu show ?thesis
          by (auto simp: POST_def chooseAnalysis_cases Let_def)
      qed
    qed
  qed
  from fallback attempt named show ?thesis by blast
qed

lemma key_refusing: "GEMINI_API_KEY refusingProvider \<noteq> []"
  by (simp add: refusingProvider_def scripted_def)

lemma refusing_None:
  "fst (analyzeTranscriptWithAI refusingProvider transcript late w) = None"
  by (simp add: analyze_result responseText_def refusingProvider_def scripted_def)

theorem fallback_is_keyword_result_witness:
  "\<exists>r md w'. POST refusingProvider (JStr ''Record revenue, strong growth'') (JBool True) 0 (fresh 0) =
                (SuccessResponse (KeywordAnalysis r) md, w') \<and>
              analyzeTranscript ''Record revenue, strong growth'' = Some r \<and>
              methodUsed md = ''keyword-analysis'' \<and> \<not> aiPowered md \<and>
              fetches w' = [analysisRequest ''Record revenue, strong growth'']"
proof -
  let ?t = "''Record revenue, strong growth''"
  have h: "?t \<noteq> [] \<and> truthy (JBool True) \<and>
           fst (analyzeTranscriptWithAI refusingProvider ?t 0 (fresh 0)) = None"
    by (simp add: truthy_def refusing_None)
  with fallback_is_keyword_result [of ?t "JBool True" refusingProvider 0 "fresh 0"]
  obtain r md w' where
    p: "POST refusingProvider (JStr ?t) (JBool True) 0 (fresh 0) =
          (SuccessResponse (KeywordAnalysis r) md, w')"
    and q: "analyzeTranscript ?t = Some r" "methodUsed md = ''keyword-analysis''" "\<not> aiPowered md"
    by blast
  have "snd (POST refusingProvider (JStr ?t) (JBool True) 0 (fresh 0)) =
          snd (analyzeTranscriptWithAI refusingProvider ?t 0 (fresh 0))"
    using q(1)
    by (simp add: POST_def chooseAnalysis_cases Let_def truthy_def refusing_None key_refusing)
  then have "fetches w' = [analysisRequest ?t]"
    using p by (simp add: fetches_analyze key_refusing fresh_def)
  with p q show ?thesis by blast
qed

end
